theory Spec2Isabelle
  imports Complex_Main "HOL-Library.AList"
begin

section \<open>Values of the Python run time\<close>

text \<open>
  A Python \<open>float\<close> is an IEEE double: a finite value, one of the two infinities, or
  NaN. Every finite double is a rational number, so the finite values are embedded in
  \<open>rat\<close>; the embedding is wider than the doubles (it has rationals that are not
  doubles), which only makes a statement over all \<open>pyfloat\<close> stronger. The only float
  operations the server performs itself are comparisons, and those are exact.
\<close>

datatype pyfloat = Finite rat | PosInf | NegInf | NaN

text \<open>\<open>x >= n\<close> for a float \<open>x\<close> and an integer literal \<open>n\<close>: false on NaN.\<close>

fun fge :: "pyfloat \<Rightarrow> int \<Rightarrow> bool" where
  "fge (Finite q) n = (of_int n \<le> q)"
| "fge PosInf n = True"
| "fge NegInf n = False"
| "fge NaN n = False"

text \<open>\<open>x > y\<close> on two floats: false as soon as one of them is NaN.\<close>

fun fgt :: "pyfloat \<Rightarrow> pyfloat \<Rightarrow> bool" where
  "fgt (Finite a) (Finite b) = (b < a)"
| "fgt (Finite a) NegInf = True"
| "fgt PosInf (Finite b) = True"
| "fgt PosInf NegInf = True"
| "fgt _ _ = False"

text \<open>
  The exceptions that can leave a request handler. \<open>ModelError\<close> stands for whatever
  the loaded scikit-learn objects raise (a shape mismatch, an unfitted estimator, ...).
\<close>

datatype error =
    TypeError
  | ValueError
  | OverflowError
  | AttributeError
  | KeyError
  | IntegrityError
  | BindError
  | DatabaseFull
  | ModelError string

text \<open>Sequencing of computations that may raise: the first exception wins.\<close>

definition ebind :: "error + 'a \<Rightarrow> ('a \<Rightarrow> error + 'b) \<Rightarrow> error + 'b" where
  "ebind m f = (case m of Inl e \<Rightarrow> Inl e | Inr x \<Rightarrow> f x)"

section \<open>The rule-based classifier\<close>

text \<open>
  \<^verbatim>\<open>
  def rule_predict(temperature, smoke, gas):
      score = 0
      if temperature >= 60:   score += 2
      elif temperature >= 45: score += 1
      if smoke >= 500:         score += 2
      elif smoke >= 300:       score += 1
      if gas >= 700:           score += 2
      elif gas >= 400:         score += 1
      if score <= 1:   return "LOW",    0, None
      if score <= 3:   return "MEDIUM", 1, None
      return "HIGH", 2, None
  \<close>
  \<open>rule_score\<close> is the value of the local variable \<open>score\<close> after the three
  \<open>if\<close>/\<open>elif\<close> statements; \<open>rule_predict\<close> is the whole function. Both callers pass
  a float temperature and integer smoke and gas.
\<close>

definition rule_score :: "pyfloat \<Rightarrow> int \<Rightarrow> int \<Rightarrow> int" where
  "rule_score temperature smoke gas =
     (let score = 0;
          score = (if fge temperature 60 then score + 2
                   else if fge temperature 45 then score + 1 else score);
          score = (if smoke \<ge> 500 then score + 2
                   else if smoke \<ge> 300 then score + 1 else score);
          score = (if gas \<ge> 700 then score + 2
                   else if gas \<ge> 400 then score + 1 else score)
      in score)"

definition rule_predict :: "pyfloat \<Rightarrow> int \<Rightarrow> int \<Rightarrow> string \<times> int \<times> pyfloat list option" where
  "rule_predict temperature smoke gas =
     (let score = rule_score temperature smoke gas
      in if score \<le> 1 then (''LOW'', 0, None)
         else if score \<le> 3 then (''MEDIUM'', 1, None)
         else (''HIGH'', 2, None))"

text \<open>The three contributions, as the specification words them.\<close>

definition temperature_points :: "pyfloat \<Rightarrow> int" where
  "temperature_points t = (if fge t 60 then 2 else if fge t 45 then 1 else 0)"

definition smoke_points :: "int \<Rightarrow> int" where
  "smoke_points s = (if s \<ge> 500 then 2 else if s \<ge> 300 then 1 else 0)"

definition gas_points :: "int \<Rightarrow> int" where
  "gas_points g = (if g \<ge> 700 then 2 else if g \<ge> 400 then 1 else 0)"

section \<open>JSON values and the built-in conversions\<close>

text \<open>
  What \<open>request.get_json(force=True)\<close> hands to a handler: the parsed body. A JSON
  object is a Python \<open>dict\<close>, kept here as an association list whose keys are distinct
  (the parser keeps one entry per key).
\<close>

datatype json =
    JNull
  | JBool bool
  | JInt int
  | JFloat pyfloat
  | JStr string
  | JArr "json list"
  | JObj "(string \<times> json) list"

text \<open>
  The parts of the run time whose results depend on floating-point rounding or on the
  text form of numbers are parameters of the model; every theorem holds for all of them.
  \<^item> \<open>float_of_str\<close>, \<open>int_of_str\<close>: \<open>float(s)\<close> and \<open>int(s)\<close> on a string, \<open>None\<close>
    where Python raises ValueError;
  \<^item> \<open>float_of_big\<close>: \<open>float(n)\<close> for an integer beyond \<open>2^53\<close> in magnitude (rounded, or
    OverflowError);
  \<^item> \<open>round_nd\<close>: \<open>round(x, n)\<close> on a float;
  \<^item> \<open>fsum\<close>: \<open>sum\<close> of a sequence of floats; \<open>fdiv\<close>: float divided by a positive
    integer; \<open>idiv\<close>: true division of an integer by a positive integer;
  \<^item> \<open>text_of_num\<close>: the text SQLite stores when a number is bound to a TEXT column.
\<close>

record pyenv =
  float_of_str :: "string \<Rightarrow> pyfloat option"
  int_of_str :: "string \<Rightarrow> int option"
  float_of_big :: "int \<Rightarrow> error + pyfloat"
  round_nd :: "nat \<Rightarrow> pyfloat \<Rightarrow> pyfloat"
  fsum :: "pyfloat list \<Rightarrow> pyfloat"
  fdiv :: "pyfloat \<Rightarrow> int \<Rightarrow> pyfloat"
  idiv :: "int \<Rightarrow> int \<Rightarrow> pyfloat"
  text_of_num :: "json \<Rightarrow> string"

text \<open>Truth value of a Python object, as \<open>not data\<close> and \<open>if proba\<close> test it.\<close>

fun truthy :: "json \<Rightarrow> bool" where
  "truthy JNull = False"
| "truthy (JBool b) = b"
| "truthy (JInt n) = (n \<noteq> 0)"
| "truthy (JFloat f) = (f \<noteq> Finite 0)"
| "truthy (JStr s) = (s \<noteq> [])"
| "truthy (JArr xs) = (xs \<noteq> [])"
| "truthy (JObj kvs) = (kvs \<noteq> [])"

fun is_prefix :: "string \<Rightarrow> string \<Rightarrow> bool" where
  "is_prefix [] s = True"
| "is_prefix (c # cs) [] = False"
| "is_prefix (c # cs) (d # ds) = (c = d \<and> is_prefix cs ds)"

fun is_substring :: "string \<Rightarrow> string \<Rightarrow> bool" where
  "is_substring p [] = (p = [])"
| "is_substring p (d # ds) = (is_prefix p (d # ds) \<or> is_substring p ds)"

text \<open>
  \<open>field in data\<close> for a string \<open>field\<close>: key membership on a dict, element membership
  on a list, substring test on a string, TypeError on a number or a boolean.
\<close>

fun py_contains :: "json \<Rightarrow> string \<Rightarrow> error + bool" where
  "py_contains (JObj kvs) field = Inr (map_of kvs field \<noteq> None)"
| "py_contains (JArr xs) field = Inr (List.member xs (JStr field))"
| "py_contains (JStr s) field = Inr (is_substring field s)"
| "py_contains _ field = Inl TypeError"

text \<open>\<open>data[field]\<close> for a string \<open>field\<close>: only a dict can be indexed by a string.\<close>

fun py_getitem :: "json \<Rightarrow> string \<Rightarrow> error + json" where
  "py_getitem (JObj kvs) field =
     (case map_of kvs field of None \<Rightarrow> Inl KeyError | Some v \<Rightarrow> Inr v)"
| "py_getitem _ field = Inl TypeError"

text \<open>\<open>data.get(field, default)\<close>: only a dict has the method.\<close>

fun py_get :: "json \<Rightarrow> string \<Rightarrow> json \<Rightarrow> error + json" where
  "py_get (JObj kvs) field dflt =
     Inr (case map_of kvs field of None \<Rightarrow> dflt | Some v \<Rightarrow> v)"
| "py_get _ field dflt = Inl AttributeError"

definition float_of_int :: "pyenv \<Rightarrow> int \<Rightarrow> error + pyfloat" where
  "float_of_int env n =
     (if \<bar>n\<bar> \<le> 2 ^ 53 then Inr (Finite (of_int n)) else float_of_big env n)"

fun py_float :: "pyenv \<Rightarrow> json \<Rightarrow> error + pyfloat" where
  "py_float env JNull = Inl TypeError"
| "py_float env (JBool b) = Inr (Finite (if b then 1 else 0))"
| "py_float env (JInt n) = float_of_int env n"
| "py_float env (JFloat f) = Inr f"
| "py_float env (JStr s) =
     (case float_of_str env s of None \<Rightarrow> Inl ValueError | Some f \<Rightarrow> Inr f)"
| "py_float env (JArr xs) = Inl TypeError"
| "py_float env (JObj kvs) = Inl TypeError"

text \<open>\<open>int(x)\<close> truncates a float toward zero.\<close>

definition trunc :: "rat \<Rightarrow> int" where
  "trunc q = (if 0 \<le> q then \<lfloor>q\<rfloor> else \<lceil>q\<rceil>)"

fun py_int :: "pyenv \<Rightarrow> json \<Rightarrow> error + int" where
  "py_int env JNull = Inl TypeError"
| "py_int env (JBool b) = Inr (if b then 1 else 0)"
| "py_int env (JInt n) = Inr n"
| "py_int env (JFloat (Finite q)) = Inr (trunc q)"
| "py_int env (JFloat PosInf) = Inl OverflowError"
| "py_int env (JFloat NegInf) = Inl OverflowError"
| "py_int env (JFloat NaN) = Inl ValueError"
| "py_int env (JStr s) =
     (case int_of_str env s of None \<Rightarrow> Inl ValueError | Some n \<Rightarrow> Inr n)"
| "py_int env (JArr xs) = Inl TypeError"
| "py_int env (JObj kvs) = Inl TypeError"

text \<open>
  A dict built by inserting the pairs in order: a repeated key keeps its first position
  and takes the last value.
\<close>

definition dict_of :: "(string \<times> json) list \<Rightarrow> (string \<times> json) list" where
  "dict_of kvs = foldl (\<lambda>d (k, v). AList.update k v d) [] kvs"

section \<open>The loaded model and the model-based classifier\<close>

text \<open>
  The module keeps four globals, \<open>predictor\<close>, \<open>scaler\<close>, \<open>label_enc\<close> (each \<open>None\<close>
  until \<open>load_model\<close> assigns it) and \<open>model_meta\<close> (\<open>{}\<close> until then). The three
  objects are scikit-learn artifacts read from disk; the model keeps of each what
  \<open>ml_predict\<close> calls:
  \<^item> \<open>predict p x\<close> is \<open>int(predictor.predict(x)[0])\<close>,
  \<^item> \<open>predict_proba p x\<close> is \<open>predictor.predict_proba(x)[0].tolist()\<close>,
  \<^item> \<open>transform sc x\<close> is \<open>scaler.transform(x)\<close>,
  \<^item> \<open>enc_classes\<close> is \<open>label_enc.classes_\<close>, the label encoder's array of class labels,
  each on the single feature row \<open>[[temperature, smoke, gas]]\<close>, and each may raise.
\<close>

type_synonym feat = "pyfloat \<times> pyfloat \<times> pyfloat"

record predictor_obj =
  predict :: "feat \<Rightarrow> error + int"
  predict_proba :: "feat \<Rightarrow> error + pyfloat list"

record scaler_obj =
  transform :: "feat \<Rightarrow> error + feat"

record encoder_obj =
  enc_classes :: "string list"

record clf_state =
  predictor :: "predictor_obj option"
  scaler :: "scaler_obj option"
  label_enc :: "encoder_obj option"
  model_meta :: json

text \<open>The globals before \<open>load_model\<close> has assigned anything.\<close>

definition not_loaded :: clf_state where
  "not_loaded = \<lparr>predictor = None, scaler = None, label_enc = None, model_meta = JObj []\<rparr>"

text \<open>
  \<open>label_enc.inverse_transform([enc_code])[0]\<close>: scikit-learn raises ValueError on an
  index that is not one of \<open>0 .. len(classes_) - 1\<close>.
\<close>

definition inverse_transform :: "encoder_obj \<Rightarrow> int \<Rightarrow> error + string" where
  "inverse_transform le enc_code =
     (if 0 \<le> enc_code \<and> enc_code < int (length (enc_classes le))
      then Inr (enc_classes le ! nat enc_code) else Inl ValueError)"

text \<open>\<open>RISK_CODES.get(label, 0)\<close> with \<open>RISK_CODES = {"LOW": 0, "MEDIUM": 1, "HIGH": 2}\<close>.\<close>

definition RISK_CODES :: "(string \<times> int) list" where
  "RISK_CODES = [(''LOW'', 0), (''MEDIUM'', 1), (''HIGH'', 2)]"

definition risk_codes_get :: "string \<Rightarrow> int" where
  "risk_codes_get label = (case map_of RISK_CODES label of None \<Rightarrow> 0 | Some c \<Rightarrow> c)"

text \<open>
  \<^verbatim>\<open>
  def ml_predict(temperature, smoke, gas):
      if predictor is None:
          return rule_predict(temperature, smoke, gas)
      feat = np.array([[temperature, smoke, gas]], dtype=float)
      feat_sc = scaler.transform(feat) if model_meta.get("use_scaled") else feat
      enc_code = int(predictor.predict(feat_sc)[0])
      proba    = predictor.predict_proba(feat_sc)[0].tolist()
      label    = label_enc.inverse_transform([enc_code])[0]
      RISK_CODES = {"LOW": 0, "MEDIUM": 1, "HIGH": 2}
      code = RISK_CODES.get(label, 0)
      return label, code, proba
  \<close>
  There is no \<open>try\<close> in the function: whatever a step raises leaves it. Building the
  float array converts the two integers; a method call on a global that is still
  \<open>None\<close> raises AttributeError.
\<close>

definition ml_predict ::
  "pyenv \<Rightarrow> clf_state \<Rightarrow> pyfloat \<Rightarrow> int \<Rightarrow> int \<Rightarrow> error + string \<times> int \<times> pyfloat list option" where
  "ml_predict env cls temperature smoke gas =
     (case predictor cls of
        None \<Rightarrow> Inr (rule_predict temperature smoke gas)
      | Some p \<Rightarrow>
          ebind (float_of_int env smoke) (\<lambda>s.
          ebind (float_of_int env gas) (\<lambda>g.
          let feat = (temperature, s, g) in
          ebind (py_get (model_meta cls) ''use_scaled'' JNull) (\<lambda>use_scaled.
          ebind (if truthy use_scaled
                 then (case scaler cls of
                         None \<Rightarrow> Inl AttributeError
                       | Some sc \<Rightarrow> transform sc feat)
                 else Inr feat) (\<lambda>feat_sc.
          ebind (predict p feat_sc) (\<lambda>enc_code.
          ebind (predict_proba p feat_sc) (\<lambda>proba.
          ebind (case label_enc cls of
                   None \<Rightarrow> Inl AttributeError
                 | Some le \<Rightarrow> inverse_transform le enc_code) (\<lambda>label.
          Inr (label, risk_codes_get label, Some proba)))))))))"

section \<open>The reading store\<close>

text \<open>
  The table \<open>sensor_readings\<close>: one record per row, the rows in insertion order, and the
  last id that \<open>AUTOINCREMENT\<close> has handed out. Ids are unbounded here (the 64-bit limit
  of a rowid is \<open>2^63\<close> insertions away).
\<close>

record reading =
  r_id :: int
  r_device_id :: string
  r_timestamp :: string
  r_temperature :: pyfloat
  r_smoke :: int
  r_gas :: int
  r_risk_level :: string
  r_risk_code :: int

record store =
  rows :: "reading list"
  seq :: int

text \<open>The table as \<open>init_db\<close> creates it.\<close>

definition init_db :: store where
  "init_db = \<lparr>rows = [], seq = 0\<rparr>"

definition int64 :: "int \<Rightarrow> bool" where
  "int64 n = (- (2 ^ 63) \<le> n \<and> n < 2 ^ 63)"

text \<open>
  Binding a Python value to a statement parameter: a list or a dict is not a supported
  type, and an integer must fit 64 bits.
\<close>

fun bind_param :: "json \<Rightarrow> error + json" where
  "bind_param (JArr xs) = Inl BindError"
| "bind_param (JObj kvs) = Inl BindError"
| "bind_param (JInt n) = (if int64 n then Inr (JInt n) else Inl OverflowError)"
| "bind_param v = Inr v"

text \<open>
  What a \<open>TEXT NOT NULL\<close> column stores for a bound value: \<open>None\<close> is NULL and a NaN
  float is bound as NULL, both rejected by the constraint; a number is stored as its
  text; \<open>True\<close> and \<open>False\<close> are bound as the integers 1 and 0.
\<close>

fun text_column :: "pyenv \<Rightarrow> json \<Rightarrow> error + string" where
  "text_column env JNull = Inl IntegrityError"
| "text_column env (JFloat NaN) = Inl IntegrityError"
| "text_column env (JStr s) = Inr s"
| "text_column env (JBool b) = Inr (text_of_num env (JInt (if b then 1 else 0)))"
| "text_column env v = Inr (text_of_num env v)"

text \<open>
  \<^verbatim>\<open>
  db.execute("INSERT INTO sensor_readings (device_id, timestamp, temperature, smoke, gas,
              risk_level, risk_code) VALUES (?, ?, ?, ?, ?, ?, ?)",
             (data["device_id"], ts, temp, smoke, gas, label, code))
  db.commit()
  \<close>
  The parameters are bound in order, then the row is checked against the constraints
  (a NaN temperature is NULL in a \<open>REAL NOT NULL\<close> column) and gets the next id.
\<close>

definition insert_reading ::
  "pyenv \<Rightarrow> store \<Rightarrow> json \<Rightarrow> string \<Rightarrow> pyfloat \<Rightarrow> int \<Rightarrow> int \<Rightarrow> string \<Rightarrow> int \<Rightarrow> error + store" where
  "insert_reading env st device ts temp smoke gas label code =
     ebind (bind_param device) (\<lambda>dv.
     ebind (bind_param (JInt smoke)) (\<lambda>_.
     ebind (bind_param (JInt gas)) (\<lambda>_.
     ebind (bind_param (JInt code)) (\<lambda>_.
     ebind (text_column env dv) (\<lambda>dev.
     if temp = NaN then Inl IntegrityError
     else Inr \<lparr>rows = rows st @
                 [\<lparr>r_id = seq st + 1, r_device_id = dev, r_timestamp = ts,
                   r_temperature = temp, r_smoke = smoke, r_gas = gas,
                   r_risk_level = label, r_risk_code = code\<rparr>],
               seq = seq st + 1\<rparr>)))))"

section \<open>The request handlers\<close>

text \<open>
  A handler returns a JSON body with an HTTP status, or an exception leaves it (the
  framework then answers 500); it also returns the table, which only a committed insert
  changes.
\<close>

type_synonym response = "json \<times> nat"

text \<open>
  \<^verbatim>\<open>
  for field in ["device_id", "temperature", "smoke", "gas"]:
      if field not in data:
          return jsonify({"error": f"Missing field: {field}"}), 400
  \<close>
  The first field that is not in \<open>data\<close>, if any.
\<close>

fun missing_field :: "json \<Rightarrow> string list \<Rightarrow> error + string option" where
  "missing_field data [] = Inr None"
| "missing_field data (field # rest) =
     ebind (py_contains data field) (\<lambda>present.
       if \<not> present then Inr (Some field) else missing_field data rest)"

text \<open>
  \<^verbatim>\<open>
  if proba and label_enc is not None:
      resp["probabilities"] = {lbl: round(p, 4) for lbl, p in zip(label_enc.classes_, proba)}
  \<close>
\<close>

definition probabilities_of :: "pyenv \<Rightarrow> encoder_obj \<Rightarrow> pyfloat list \<Rightarrow> json" where
  "probabilities_of env le proba =
     JObj (dict_of (map (\<lambda>(lbl, p). (lbl, JFloat (round_nd env 4 p)))
                        (zip (enc_classes le) proba)))"

definition add_probabilities ::
  "pyenv \<Rightarrow> clf_state \<Rightarrow> pyfloat list option \<Rightarrow> (string \<times> json) list \<Rightarrow> (string \<times> json) list" where
  "add_probabilities env cls proba resp =
     (case proba of
        None \<Rightarrow> resp
      | Some [] \<Rightarrow> resp
      | Some (p # ps) \<Rightarrow>
          (case label_enc cls of
             None \<Rightarrow> resp
           | Some le \<Rightarrow> AList.update ''probabilities'' (probabilities_of env le (p # ps)) resp))"

text \<open>
  \<^verbatim>\<open>
  def receive_sensor_data():
      data = request.get_json(force=True)
      if not data:
          return jsonify({"error": "No JSON body"}), 400
      for field in ["device_id", "temperature", "smoke", "gas"]: ...
      temp  = float(data["temperature"])
      smoke = int(data["smoke"])
      gas   = int(data["gas"])
      label, code, proba = ml_predict(temp, smoke, gas)
      ts = datetime.utcnow().isoformat()
      db = get_db()
      db.execute("INSERT ...", (data["device_id"], ts, temp, smoke, gas, label, code))
      db.commit()
      ...
      resp = {"status": "ok", "risk_level": label, "risk_code": code}
      if proba and label_enc is not None: ...
      return jsonify(resp), 200
  \<close>
  \<open>now\<close> is the text of \<open>datetime.utcnow().isoformat()\<close> at the call. The warning
  written to the log for a code of 1 or 2 is not part of the modelled state.
\<close>

definition receive_sensor_data ::
  "pyenv \<Rightarrow> clf_state \<Rightarrow> string \<Rightarrow> json \<Rightarrow> store \<Rightarrow> (error + response) \<times> store" where
  "receive_sensor_data env cls now data st =
     (if \<not> truthy data then (Inr (JObj [(''error'', JStr ''No JSON body'')], 400), st)
      else
        case missing_field data [''device_id'', ''temperature'', ''smoke'', ''gas''] of
          Inl e \<Rightarrow> (Inl e, st)
        | Inr (Some field) \<Rightarrow>
            (Inr (JObj [(''error'', JStr (''Missing field: '' @ field))], 400), st)
        | Inr None \<Rightarrow>
            (case
               ebind (ebind (py_getitem data ''temperature'') (py_float env)) (\<lambda>temp.
               ebind (ebind (py_getitem data ''smoke'') (py_int env)) (\<lambda>smoke.
               ebind (ebind (py_getitem data ''gas'') (py_int env)) (\<lambda>gas.
               ebind (ml_predict env cls temp smoke gas) (\<lambda>(label, code, proba).
               ebind (py_getitem data ''device_id'') (\<lambda>device.
               ebind (insert_reading env st device now temp smoke gas label code) (\<lambda>st'.
               let resp = [(''status'', JStr ''ok''), (''risk_level'', JStr label),
                           (''risk_code'', JInt code)]
               in Inr (JObj (add_probabilities env cls proba resp), st')))))))
             of
               Inl e \<Rightarrow> (Inl e, st)
             | Inr (body, st') \<Rightarrow> (Inr (body, 200), st')))"

text \<open>
  \<^verbatim>\<open>
  def manual_predict():
      data  = request.get_json(force=True)
      temp  = float(data.get("temperature", 30))
      smoke = int(data.get("smoke",         100))
      gas   = int(data.get("gas",           150))
      label, code, proba = ml_predict(temp, smoke, gas)
      resp = {"risk_level": label, "risk_code": code}
      if proba and label_enc is not None: ...
      return jsonify(resp)
  \<close>
\<close>

definition manual_predict ::
  "pyenv \<Rightarrow> clf_state \<Rightarrow> json \<Rightarrow> store \<Rightarrow> (error + response) \<times> store" where
  "manual_predict env cls data st =
     (case
        ebind (ebind (py_get data ''temperature'' (JInt 30)) (py_float env)) (\<lambda>temp.
        ebind (ebind (py_get data ''smoke'' (JInt 100)) (py_int env)) (\<lambda>smoke.
        ebind (ebind (py_get data ''gas'' (JInt 150)) (py_int env)) (\<lambda>gas.
        ebind (ml_predict env cls temp smoke gas) (\<lambda>(label, code, proba).
        let resp = [(''risk_level'', JStr label), (''risk_code'', JInt code)]
        in Inr (JObj (add_probabilities env cls proba resp))))))
      of
        Inl e \<Rightarrow> (Inl e, st)
      | Inr body \<Rightarrow> (Inr (body, 200), st))"

text \<open>
  \<^verbatim>\<open>
  def row_to_dict(row):
      return {"id": row["id"], "device_id": row["device_id"], ...}
  \<close>
\<close>

definition row_to_dict :: "reading \<Rightarrow> json" where
  "row_to_dict row =
     JObj [(''id'', JInt (r_id row)), (''device_id'', JStr (r_device_id row)),
           (''timestamp'', JStr (r_timestamp row)),
           (''temperature'', JFloat (r_temperature row)),
           (''smoke'', JInt (r_smoke row)), (''gas'', JInt (r_gas row)),
           (''risk_level'', JStr (r_risk_level row)),
           (''risk_code'', JInt (r_risk_code row))]"

text \<open>
  \<open>ORDER BY id DESC LIMIT ?\<close>: SQLite puts no bound on the number of rows when the
  limit is negative.
\<close>

definition order_by_id_desc_limit :: "reading list \<Rightarrow> int \<Rightarrow> reading list" where
  "order_by_id_desc_limit rs limit =
     (let sorted = rev (sort_key r_id rs)
      in if limit < 0 then sorted else take (nat limit) sorted)"

text \<open>
  \<^verbatim>\<open>
  def get_latest():
      device = request.args.get("device_id")
      limit  = int(request.args.get("limit", 50))
      db = get_db()
      if device:
          rows = db.execute("SELECT * FROM sensor_readings WHERE device_id=? "
                            "ORDER BY id DESC LIMIT ?", (device, limit)).fetchall()
      else:
          rows = db.execute("SELECT * FROM sensor_readings ORDER BY id DESC LIMIT ?",
                            (limit,)).fetchall()
      return jsonify([row_to_dict(r) for r in rows])
  \<close>
  \<open>device\<close> and \<open>limit_arg\<close> are the two query arguments, \<open>None\<close> when absent.
  \<open>latest_rows\<close> is the list \<open>rows\<close>, \<open>get_latest\<close> the handler.
\<close>

definition latest_rows ::
  "pyenv \<Rightarrow> string option \<Rightarrow> string option \<Rightarrow> store \<Rightarrow> error + reading list" where
  "latest_rows env device limit_arg st =
     ebind (py_int env (case limit_arg of None \<Rightarrow> JInt 50 | Some s \<Rightarrow> JStr s)) (\<lambda>limit.
     ebind (bind_param (JInt limit)) (\<lambda>_.
       case device of
         None \<Rightarrow> Inr (order_by_id_desc_limit (rows st) limit)
       | Some d \<Rightarrow>
           if d \<noteq> []
           then Inr (order_by_id_desc_limit (filter (\<lambda>r. r_device_id r = d) (rows st)) limit)
           else Inr (order_by_id_desc_limit (rows st) limit)))"

definition get_latest ::
  "pyenv \<Rightarrow> string option \<Rightarrow> string option \<Rightarrow> store \<Rightarrow> (error + response) \<times> store" where
  "get_latest env device limit_arg st =
     (case latest_rows env device limit_arg st of
        Inl e \<Rightarrow> (Inl e, st)
      | Inr rs \<Rightarrow> (Inr (JArr (map row_to_dict rs), 200), st))"

text \<open>
  \<open>timestamp >= ?\<close> compares two TEXT values byte by byte, a proper prefix being the
  smaller.
\<close>

fun text_lt :: "string \<Rightarrow> string \<Rightarrow> bool" where
  "text_lt [] [] = False"
| "text_lt [] (d # ds) = True"
| "text_lt (c # cs) [] = False"
| "text_lt (c # cs) (d # ds) =
     ((of_char c :: nat) < of_char d \<or> (c = d \<and> text_lt cs ds))"

definition text_ge :: "string \<Rightarrow> string \<Rightarrow> bool" where
  "text_ge a b = (\<not> text_lt a b)"

text \<open>\<open>max\<close> of a sequence of floats: the first of the largest, ValueError when empty.\<close>

fun py_max :: "pyfloat list \<Rightarrow> error + pyfloat" where
  "py_max [] = Inl ValueError"
| "py_max (x # xs) = Inr (foldl (\<lambda>m y. if fgt y m then y else m) x xs)"

text \<open>
  \<^verbatim>\<open>
  def get_stats():
      db    = get_db()
      total  = db.execute("SELECT COUNT(*) FROM sensor_readings").fetchone()[0]
      high   = db.execute("SELECT COUNT(*) ... WHERE risk_level='HIGH'").fetchone()[0]
      medium = db.execute("SELECT COUNT(*) ... WHERE risk_level='MEDIUM'").fetchone()[0]
      low    = db.execute("SELECT COUNT(*) ... WHERE risk_level='LOW'").fetchone()[0]
      cutoff = (datetime.utcnow() - timedelta(hours=24)).isoformat()
      recent = db.execute("SELECT temperature, smoke, gas FROM sensor_readings "
                          "WHERE timestamp >= ?", (cutoff,)).fetchall()
      if recent:
          avg_temp  = round(sum(r[0] for r in recent) / len(recent), 2)
          avg_smoke = round(sum(r[1] for r in recent) / len(recent), 2)
          avg_gas   = round(sum(r[2] for r in recent) / len(recent), 2)
          max_temp  = round(max(r[0] for r in recent), 2)
      else:
          avg_temp = avg_smoke = avg_gas = max_temp = 0
      return jsonify({"total_readings": total,
                      "risk_distribution": {"LOW": low, "MEDIUM": medium, "HIGH": high},
                      "last_24h": {"count": len(recent), "avg_temp": avg_temp, ...},
                      "model": model_meta or "rule-based"})
  \<close>
  \<open>cutoff\<close> is the text of the instant 24 hours before the call.
\<close>

definition count_level :: "string \<Rightarrow> store \<Rightarrow> int" where
  "count_level level st = int (length (filter (\<lambda>r. r_risk_level r = level) (rows st)))"

definition get_stats ::
  "pyenv \<Rightarrow> clf_state \<Rightarrow> string \<Rightarrow> store \<Rightarrow> (error + response) \<times> store" where
  "get_stats env cls cutoff st =
     (let total = int (length (rows st));
          high = count_level ''HIGH'' st;
          medium = count_level ''MEDIUM'' st;
          low = count_level ''LOW'' st;
          recent = map (\<lambda>r. (r_temperature r, r_smoke r, r_gas r))
                     (filter (\<lambda>r. text_ge (r_timestamp r) cutoff) (rows st));
          n = int (length recent)
      in case
           (if recent \<noteq> []
            then
              ebind (py_max (map fst recent)) (\<lambda>mx.
              Inr (JFloat (round_nd env 2 (fdiv env (fsum env (map fst recent)) n)),
                   JFloat (round_nd env 2 (idiv env (sum_list (map (fst \<circ> snd) recent)) n)),
                   JFloat (round_nd env 2 (idiv env (sum_list (map (snd \<circ> snd) recent)) n)),
                   JFloat (round_nd env 2 mx)))
            else Inr (JInt 0, JInt 0, JInt 0, JInt 0))
         of
           Inl e \<Rightarrow> (Inl e, st)
         | Inr (avg_temp, avg_smoke, avg_gas, max_temp) \<Rightarrow>
             (Inr (JObj [(''total_readings'', JInt total),
                         (''risk_distribution'',
                            JObj [(''LOW'', JInt low), (''MEDIUM'', JInt medium),
                                  (''HIGH'', JInt high)]),
                         (''last_24h'',
                            JObj [(''count'', JInt n), (''avg_temp'', avg_temp),
                                  (''avg_smoke'', avg_smoke), (''avg_gas'', avg_gas),
                                  (''max_temp'', max_temp)]),
                         (''model'',
                            if truthy (model_meta cls) then model_meta cls
                            else JStr ''rule-based'')], 200), st))"

section \<open>The tables the server can reach\<close>

text \<open>
  The tables the server can hold: the table of \<open>init_db\<close>, and what an ingestion
  request leaves of such a table (the other handlers return their table unchanged).
\<close>

inductive reachable :: "store \<Rightarrow> bool" where
  reachable_init: "reachable init_db"
| reachable_ingest:
    "reachable st \<Longrightarrow> receive_sensor_data env cls now data st = (r, st') \<Longrightarrow> reachable st'"

text \<open>What \<open>AUTOINCREMENT\<close> maintains: no id is used twice and none is beyond \<open>seq\<close>.\<close>

definition store_inv :: "store \<Rightarrow> bool" where
  "store_inv st = (distinct (map r_id (rows st)) \<and> list_all (\<lambda>r. r_id r \<le> seq st) (rows st))"

section \<open>A run-time environment for concrete requests\<close>

text \<open>
  The theorems about all requests hold for every environment. To evaluate a handler on a
  concrete request an environment has to be fixed. This one adds and divides on the
  rationals and leaves \<open>round\<close> out: that is the result of the doubles whenever the exact
  result is itself a double with no more decimals than \<open>round\<close> keeps, and it is so in
  every evaluation below. Its string parsers are tables of the literals that are parsed
  below; for a string outside its table a parser answers \<open>None\<close> (ValueError), which is
  CPython's answer for the one such string evaluated below, \<open>"hot"\<close>. Integers
  are printed in decimal; the text of a float is not needed below and is left empty.
\<close>

fun fadd :: "pyfloat \<Rightarrow> pyfloat \<Rightarrow> pyfloat" where
  "fadd (Finite a) (Finite b) = Finite (a + b)"
| "fadd NaN y = NaN"
| "fadd x NaN = NaN"
| "fadd PosInf NegInf = NaN"
| "fadd NegInf PosInf = NaN"
| "fadd PosInf y = PosInf"
| "fadd NegInf y = NegInf"
| "fadd x PosInf = PosInf"
| "fadd x NegInf = NegInf"

fun fdiv_pos :: "pyfloat \<Rightarrow> int \<Rightarrow> pyfloat" where
  "fdiv_pos (Finite a) n = Finite (a / of_int n)"
| "fdiv_pos x n = x"

fun digit_text :: "nat \<Rightarrow> nat \<Rightarrow> string" where
  "digit_text 0 n = []"
| "digit_text (Suc fuel) n =
     (if n < 10 then [char_of (48 + n)]
      else digit_text fuel (n div 10) @ [char_of (48 + n mod 10)])"

definition int_text :: "int \<Rightarrow> string" where
  "int_text n = (if n < 0 then CHR ''-'' # digit_text (nat (- n)) (nat (- n))
                 else digit_text (Suc (nat n)) (nat n))"

definition sample_env :: pyenv where
  "sample_env =
     \<lparr>float_of_str = map_of [(''64.5'', Finite (129 / 2)), (''31'', Finite 31)],
      int_of_str = map_of [(''1'', 1), (''2'', 2), (''-1'', - 1), (''50'', 50)],
      float_of_big =
        (\<lambda>n. if \<bar>n\<bar> < 2 ^ 1024 - 2 ^ 970 then Inr (Finite (of_int n)) else Inl OverflowError),
      round_nd = (\<lambda>n x. x),
      fsum = (\<lambda>xs. foldl fadd (Finite 0) xs),
      fdiv = fdiv_pos,
      idiv = (\<lambda>a b. Finite (of_int a / of_int b)),
      text_of_num = (\<lambda>v. case v of JInt n \<Rightarrow> int_text n | _ \<Rightarrow> [])\<rparr>"

text \<open>
  Three states of the globals after \<open>load_model\<close>, for concrete requests: a model
  whose encoder knows the classes HIGH and LOW and that calls a reading HIGH from 60
  degrees on; the same predictor beside an encoder fitted on other label names; and a
  predictor whose \<open>predict\<close> rejects the feature row.
\<close>

definition sample_predictor :: predictor_obj where
  "sample_predictor =
     \<lparr>predict = (\<lambda>(t, s, g). Inr (if fge t 60 then 0 else 1)),
      predict_proba = (\<lambda>(t, s, g). Inr (if fge t 60 then [Finite (3 / 4), Finite (1 / 4)]
                                         else [Finite (1 / 4), Finite (3 / 4)]))\<rparr>"

definition sample_model :: clf_state where
  "sample_model =
     \<lparr>predictor = Some sample_predictor,
      scaler = Some \<lparr>transform = (\<lambda>x. Inr x)\<rparr>,
      label_enc = Some \<lparr>enc_classes = [''HIGH'', ''LOW'']\<rparr>,
      model_meta = JObj [(''model_name'', JStr ''RandomForest''), (''use_scaled'', JBool False)]\<rparr>"

definition other_labels_model :: clf_state where
  "other_labels_model = sample_model\<lparr>label_enc := Some \<lparr>enc_classes = [''CRITICAL'', ''NORMAL'']\<rparr>\<rparr>"

definition failing_model :: clf_state where
  "failing_model =
     sample_model\<lparr>predictor := Some (sample_predictor
       \<lparr>predict := (\<lambda>x. Inl (ModelError ''X has 3 features, but the estimator expects 4''))\<rparr>)\<rparr>"

text \<open>
  The tables after one and after two readings, of two devices, have been ingested with no
  model loaded.
\<close>

definition one_reading :: store where
  "one_reading =
     snd (receive_sensor_data sample_env not_loaded ''2026-11-02T09:30:00''
            (JObj [(''device_id'', JStr ''esp32-1''), (''temperature'', JFloat (Finite (129 / 2))),
                   (''smoke'', JInt 120), (''gas'', JInt 90)]) init_db)"

definition two_readings :: store where
  "two_readings =
     snd (receive_sensor_data sample_env not_loaded ''2026-11-02T09:30:02''
            (JObj [(''device_id'', JStr ''esp32-2''), (''temperature'', JFloat (Finite 31)),
                   (''smoke'', JInt 520), (''gas'', JInt 710)]) one_reading)"

section \<open>Notions of the specification\<close>

text \<open>
  A request body with the documented defaults of the manual prediction written into it:
  temperature 30, smoke 100 and gas 150, each only where the key is absent.
\<close>

definition fill_defaults :: "(string \<times> json) list \<Rightarrow> (string \<times> json) list" where
  "fill_defaults kvs =
     (if map_of kvs ''temperature'' = None then [(''temperature'', JInt 30)] else []) @
     (if map_of kvs ''smoke'' = None then [(''smoke'', JInt 100)] else []) @
     (if map_of kvs ''gas'' = None then [(''gas'', JInt 150)] else []) @ kvs"

text \<open>
  The rows a device filter selects: all of them when no \<open>device_id\<close> argument is given,
  and also when it is the empty string, which \<open>if device:\<close> takes for absent.
\<close>

definition selected :: "string option \<Rightarrow> reading \<Rightarrow> bool" where
  "selected device r = (case device of None \<Rightarrow> True | Some d \<Rightarrow> d = [] \<or> r_device_id r = d)"

text \<open>The value a request object gives a key, or the default where the key is absent.\<close>

definition field_or :: "(string \<times> json) list \<Rightarrow> string \<Rightarrow> json \<Rightarrow> json" where
  "field_or kvs field dflt = (case map_of kvs field of None \<Rightarrow> dflt | Some v \<Rightarrow> v)"

text \<open>
  The feature row the predictor is given: temperature, smoke and gas in this order, as
  floats, and put through the scaler when the metadata of the model declares
  \<open>use_scaled\<close>; or the exception that building it raises.
\<close>

definition model_input :: "pyenv \<Rightarrow> clf_state \<Rightarrow> pyfloat \<Rightarrow> int \<Rightarrow> int \<Rightarrow> error + feat" where
  "model_input env cls t s g =
     ebind (float_of_int env s) (\<lambda>fs.
     ebind (float_of_int env g) (\<lambda>fg.
     ebind (py_get (model_meta cls) ''use_scaled'' JNull) (\<lambda>flag.
       if truthy flag
       then (case scaler cls of None \<Rightarrow> Inl AttributeError | Some sc \<Rightarrow> transform sc (t, fs, fg))
       else Inr (t, fs, fg))))"

text \<open>The fixed correspondence of labels and codes: LOW is 0, MEDIUM is 1, HIGH is 2.\<close>

definition risk_pair_ok :: "string \<Rightarrow> int \<Rightarrow> bool" where
  "risk_pair_ok label code =
     ((label = ''LOW'' \<and> code = 0) \<or> (label = ''MEDIUM'' \<and> code = 1)
      \<or> (label = ''HIGH'' \<and> code = 2))"

text \<open>
  The three conversions of ingestion, in the order the handler makes them:
  \<open>float(temperature)\<close>, \<open>int(smoke)\<close>, \<open>int(gas)\<close>. The result is the feature triple,
  or the exception of the first conversion that fails.
\<close>

definition coerce_features :: "pyenv \<Rightarrow> json \<Rightarrow> json \<Rightarrow> json \<Rightarrow> error + pyfloat \<times> int \<times> int" where
  "coerce_features env tv sv gv =
     ebind (py_float env tv) (\<lambda>t.
     ebind (py_int env sv) (\<lambda>s.
     ebind (py_int env gv) (\<lambda>g. Inr (t, s, g))))"

section \<open>Properties of the rule-based classifier\<close>

lemma rule_score_sum:
  "rule_score t s g = temperature_points t + smoke_points s + gas_points g"
  by (simp add: rule_score_def temperature_points_def smoke_points_def gas_points_def)

lemma rule_score_range: "0 \<le> rule_score t s g \<and> rule_score t s g \<le> 6"
  by (simp add: rule_score_def)

text \<open>
  C1: the score of the rule-based classifier is the sum of the three independent
  contributions of temperature, smoke and gas; the label is LOW exactly when the score
  is at most 1, MEDIUM exactly when it is 2 or 3, HIGH exactly when it is at least 4,
  and the code is 0, 1, 2 accordingly. The readings (60,0,0), (65,600,0) and (10,0,0)
  score 2, 4 and 0 and are MEDIUM, HIGH and LOW.
\<close>

theorem rule_predict_score_label:
  "rule_score t s g = temperature_points t + smoke_points s + gas_points g
   \<and> (rule_predict t s g = (''LOW'', 0, None)) = (rule_score t s g \<le> 1)
   \<and> (rule_predict t s g = (''MEDIUM'', 1, None)) = (rule_score t s g = 2 \<or> rule_score t s g = 3)
   \<and> (rule_predict t s g = (''HIGH'', 2, None)) = (rule_score t s g \<ge> 4)
   \<and> rule_score (Finite 60) 0 0 = 2 \<and> rule_predict (Finite 60) 0 0 = (''MEDIUM'', 1, None)
   \<and> rule_score (Finite 65) 600 0 = 4 \<and> rule_predict (Finite 65) 600 0 = (''HIGH'', 2, None)
   \<and> rule_score (Finite 10) 0 0 = 0 \<and> rule_predict (Finite 10) 0 0 = (''LOW'', 0, None)"
proof -
  have ex: "rule_score (Finite 60) 0 0 = 2" "rule_score (Finite 65) 600 0 = 4"
    "rule_score (Finite 10) 0 0 = 0"
    by (simp_all add: rule_score_def)
  have lab: "(rule_predict t s g = (''LOW'', 0, None)) = (rule_score t s g \<le> 1)"
    "(rule_predict t s g = (''MEDIUM'', 1, None)) = (rule_score t s g = 2 \<or> rule_score t s g = 3)"
    "(rule_predict t s g = (''HIGH'', 2, None)) = (rule_score t s g \<ge> 4)"
    by (auto simp add: rule_predict_def Let_def)
  have exl: "rule_predict (Finite 60) 0 0 = (''MEDIUM'', 1, None)"
    "rule_predict (Finite 65) 600 0 = (''HIGH'', 2, None)"
    "rule_predict (Finite 10) 0 0 = (''LOW'', 0, None)"
    by (simp_all add: rule_predict_def ex)
  show ?thesis using rule_score_sum ex lab exl by blast
qed

lemma ebind_simps [simp]:
  "ebind (Inl e) f = Inl e" "ebind (Inr x) f = f x"
  by (simp_all add: ebind_def)

lemma ebind_Inr_iff: "(ebind m f = Inr y) = (\<exists>x. m = Inr x \<and> f x = Inr y)"
  by (cases m) simp_all

lemma ebind_Inl_iff: "(ebind m f = Inl e) = (m = Inl e \<or> (\<exists>x. m = Inr x \<and> f x = Inl e))"
  by (cases m) auto

section \<open>Properties of ingestion and statistics\<close>

text \<open>
  C9: a body that parses to the empty object is answered with the generic error
  "No JSON body" and status 400, not with "Missing field: device_id": the emptiness test
  comes before the loop over the required fields. The table is unchanged.
\<close>

theorem empty_object_no_json_body:
  "receive_sensor_data env cls now (JObj []) st =
     (Inr (JObj [(''error'', JStr ''No JSON body'')], 400), st)
   \<and> fst (receive_sensor_data env cls now (JObj []) st) \<noteq>
     Inr (JObj [(''error'', JStr ''Missing field: device_id'')], 400)"
  by (simp add: receive_sensor_data_def)

text \<open>
  C5: on a table without rows the statistics handler answers 200 with
  \<open>total_readings\<close> 0, the three risk counts 0, a window count of 0 and the integer 0
  for the three averages and the maximum; no exception leaves it.
\<close>

theorem get_stats_empty:
  "rows st = [] \<Longrightarrow>
   get_stats env cls cutoff st =
     (Inr (JObj [(''total_readings'', JInt 0),
                 (''risk_distribution'',
                    JObj [(''LOW'', JInt 0), (''MEDIUM'', JInt 0), (''HIGH'', JInt 0)]),
                 (''last_24h'',
                    JObj [(''count'', JInt 0), (''avg_temp'', JInt 0),
                          (''avg_smoke'', JInt 0), (''avg_gas'', JInt 0),
                          (''max_temp'', JInt 0)]),
                 (''model'',
                    if truthy (model_meta cls) then model_meta cls
                    else JStr ''rule-based'')], 200), st)"
  by (simp add: get_stats_def count_level_def)

theorem get_stats_empty_witness:
  "rows init_db = [] \<and>
   get_stats sample_env not_loaded ''2026-11-02T09:30:00'' init_db =
     (Inr (JObj [(''total_readings'', JInt 0),
                 (''risk_distribution'',
                    JObj [(''LOW'', JInt 0), (''MEDIUM'', JInt 0), (''HIGH'', JInt 0)]),
                 (''last_24h'',
                    JObj [(''count'', JInt 0), (''avg_temp'', JInt 0),
                          (''avg_smoke'', JInt 0), (''avg_gas'', JInt 0),
                          (''max_temp'', JInt 0)]),
                 (''model'', JStr ''rule-based'')], 200), init_db)"
proof -
  have e: "rows init_db = []" by (simp add: init_db_def)
  show ?thesis
    using e get_stats_empty [OF e, of sample_env not_loaded "''2026-11-02T09:30:00''"]
    by (simp add: not_loaded_def)
qed

section \<open>Properties of the manual prediction\<close>

lemma map_of_fill_defaults:
  "map_of (fill_defaults kvs) k =
     (case map_of kvs k of
        Some v \<Rightarrow> Some v
      | None \<Rightarrow> if k = ''temperature'' then Some (JInt 30)
                else if k = ''smoke'' then Some (JInt 100)
                else if k = ''gas'' then Some (JInt 150) else None)"
  by (auto simp add: fill_defaults_def map_add_def split: option.splits)

lemma float_of_int_30: "float_of_int env 30 = Inr (Finite 30)"
  by (simp add: float_of_int_def)


lemma missing_field_obj_present:
  "map_of kvs ''device_id'' = Some d \<Longrightarrow> map_of kvs ''temperature'' = Some t \<Longrightarrow>
   map_of kvs ''smoke'' = Some s \<Longrightarrow> map_of kvs ''gas'' = Some g \<Longrightarrow>
   missing_field (JObj kvs) [''device_id'', ''temperature'', ''smoke'', ''gas''] = Inr None"
  by simp



lemma manual_predict_store: "snd (manual_predict env cls data st) = st"
  by (simp add: manual_predict_def split: sum.splits)














section \<open>Properties of the reading store\<close>

lemma insert_reading_inv:
  assumes "store_inv st" "insert_reading env st device ts temp smoke gas label code = Inr st'"
  shows "store_inv st'"
proof -
  from assms(2) obtain dev where
    st': "st' = \<lparr>rows = rows st @
                 [\<lparr>r_id = seq st + 1, r_device_id = dev, r_timestamp = ts,
                   r_temperature = temp, r_smoke = smoke, r_gas = gas,
                   r_risk_level = label, r_risk_code = code\<rparr>],
               seq = seq st + 1\<rparr>"
    by (auto simp add: insert_reading_def ebind_Inr_iff split: if_splits)
  have "seq st + 1 \<notin> r_id ` set (rows st)"
    using assms(1) by (auto simp add: store_inv_def list_all_iff)
  then show ?thesis
    using assms(1) unfolding st' by (auto simp add: store_inv_def list_all_iff)
qed

lemma receive_sensor_data_store:
  assumes "receive_sensor_data env cls now data st = (r, st')"
  shows "st' = st \<or> (\<exists>device temp smoke gas label code.
            insert_reading env st device now temp smoke gas label code = Inr st')"
  using assms
  by (auto simp add: receive_sensor_data_def ebind_Inr_iff
           split: if_splits sum.splits option.splits)

lemma reachable_inv: "reachable st \<Longrightarrow> store_inv st"
proof (induction rule: reachable.induct)
  case reachable_init
  show ?case by (simp add: store_inv_def init_db_def)
next
  case (reachable_ingest st env cls now data r st')
  from receive_sensor_data_store [OF reachable_ingest(2)] reachable_ingest(3)
  show ?case using insert_reading_inv by blast
qed


lemma order_by_sorted:
  assumes "distinct (map r_id rs)"
  shows "sorted_wrt (>) (map r_id (order_by_id_desc_limit rs limit))"
proof -
  have "distinct (map r_id (sort_key r_id rs))"
    using assms by (simp add: distinct_map)
  then have "sorted_wrt (<) (map r_id (sort_key r_id rs))"
    by (simp add: strict_sorted_iff)
  then have "sorted_wrt (>) (map r_id (rev (sort_key r_id rs)))"
    by (simp add: rev_map [symmetric] sorted_wrt_rev)
  then show ?thesis
    by (simp add: order_by_id_desc_limit_def Let_def take_map [symmetric] sorted_wrt_take)
qed

lemma order_by_set: "set (order_by_id_desc_limit rs limit) \<subseteq> set rs"
  by (auto simp add: order_by_id_desc_limit_def Let_def dest: in_set_takeD)

lemma order_by_length: "0 \<le> limit \<Longrightarrow> int (length (order_by_id_desc_limit rs limit)) \<le> limit"
  by (simp add: order_by_id_desc_limit_def Let_def)

lemma order_by_unbounded: "limit < 0 \<Longrightarrow> length (order_by_id_desc_limit rs limit) = length rs"
  by (simp add: order_by_id_desc_limit_def Let_def)

lemma latest_rows_eq:
  assumes "latest_rows env device limit_arg st = Inr rs"
    and "py_int env (case limit_arg of None \<Rightarrow> JInt 50 | Some s \<Rightarrow> JStr s) = Inr limit"
  shows "rs = order_by_id_desc_limit (filter (selected device) (rows st)) limit"
proof (cases device)
  case None
  then show ?thesis
    using assms by (simp add: latest_rows_def selected_def ebind_Inr_iff)
next
  case (Some d)
  have "selected (Some d) = (\<lambda>r. d = [] \<or> r_device_id r = d)"
    by (rule ext) (simp add: selected_def)
  then have "filter (selected (Some d)) (rows st) =
      (if d \<noteq> [] then filter (\<lambda>r. r_device_id r = d) (rows st) else rows st)"
    by simp
  then show ?thesis
    using assms Some by (auto simp add: latest_rows_def ebind_Inr_iff split: if_splits)
qed

lemma ml_predict_not_loaded:
  "predictor cls = None \<Longrightarrow> ml_predict env cls t s g = Inr (rule_predict t s g)"
  by (simp add: ml_predict_def)

lemma one_reading_eq:
  "one_reading =
     \<lparr>rows = [\<lparr>r_id = 1, r_device_id = ''esp32-1'', r_timestamp = ''2026-11-02T09:30:00'',
               r_temperature = Finite (129 / 2), r_smoke = 120, r_gas = 90,
               r_risk_level = ''MEDIUM'', r_risk_code = 1\<rparr>], seq = 1\<rparr>"
proof -
  have p: "predictor not_loaded = None" by (simp add: not_loaded_def)
  have c: "rule_predict (Finite (129 / 2)) 120 90 = (''MEDIUM'', 1, None)"
    by (simp add: rule_predict_def rule_score_def)
  have i: "insert_reading sample_env init_db (JStr ''esp32-1'') ''2026-11-02T09:30:00''
             (Finite (129 / 2)) 120 90 ''MEDIUM'' 1 =
           Inr \<lparr>rows = [\<lparr>r_id = 1, r_device_id = ''esp32-1'', r_timestamp = ''2026-11-02T09:30:00'',
               r_temperature = Finite (129 / 2), r_smoke = 120, r_gas = 90,
               r_risk_level = ''MEDIUM'', r_risk_code = 1\<rparr>], seq = 1\<rparr>"
    by (simp add: insert_reading_def init_db_def int64_def)
  show ?thesis
    by (simp add: one_reading_def receive_sensor_data_def ml_predict_not_loaded [OF p] c i)
qed

lemma two_readings_eq:
  "two_readings =
     \<lparr>rows = [\<lparr>r_id = 1, r_device_id = ''esp32-1'', r_timestamp = ''2026-11-02T09:30:00'',
               r_temperature = Finite (129 / 2), r_smoke = 120, r_gas = 90,
               r_risk_level = ''MEDIUM'', r_risk_code = 1\<rparr>,
              \<lparr>r_id = 2, r_device_id = ''esp32-2'', r_timestamp = ''2026-11-02T09:30:02'',
               r_temperature = Finite 31, r_smoke = 520, r_gas = 710,
               r_risk_level = ''HIGH'', r_risk_code = 2\<rparr>], seq = 2\<rparr>"
proof -
  have p: "predictor not_loaded = None" by (simp add: not_loaded_def)
  have c: "rule_predict (Finite 31) 520 710 = (''HIGH'', 2, None)"
    by (simp add: rule_predict_def rule_score_def)
  have i: "insert_reading sample_env
             \<lparr>rows = [\<lparr>r_id = 1, r_device_id = ''esp32-1'', r_timestamp = ''2026-11-02T09:30:00'',
               r_temperature = Finite (129 / 2), r_smoke = 120, r_gas = 90,
               r_risk_level = ''MEDIUM'', r_risk_code = 1\<rparr>], seq = 1\<rparr>
             (JStr ''esp32-2'') ''2026-11-02T09:30:02'' (Finite 31) 520 710 ''HIGH'' 2 =
           Inr \<lparr>rows = [\<lparr>r_id = 1, r_device_id = ''esp32-1'', r_timestamp = ''2026-11-02T09:30:00'',
               r_temperature = Finite (129 / 2), r_smoke = 120, r_gas = 90,
               r_risk_level = ''MEDIUM'', r_risk_code = 1\<rparr>,
              \<lparr>r_id = 2, r_device_id = ''esp32-2'', r_timestamp = ''2026-11-02T09:30:02'',
               r_temperature = Finite 31, r_smoke = 520, r_gas = 710,
               r_risk_level = ''HIGH'', r_risk_code = 2\<rparr>], seq = 2\<rparr>"
    by (simp add: insert_reading_def int64_def)
  show ?thesis
    by (simp add: two_readings_def one_reading_eq receive_sensor_data_def
        ml_predict_not_loaded [OF p] c i)
qed

lemma reachable_two_readings: "reachable two_readings"
proof -
  have "reachable one_reading"
    unfolding one_reading_def
    by (rule reachable_ingest [OF reachable_init]) (rule surjective_pairing)
  then show ?thesis
    unfolding two_readings_def
    by (rule reachable_ingest) (rule surjective_pairing)
qed

lemma latest_two_unbounded:
  "latest_rows sample_env None (Some ''-1'') two_readings =
     Inr [\<lparr>r_id = 2, r_device_id = ''esp32-2'', r_timestamp = ''2026-11-02T09:30:02'',
           r_temperature = Finite 31, r_smoke = 520, r_gas = 710,
           r_risk_level = ''HIGH'', r_risk_code = 2\<rparr>,
          \<lparr>r_id = 1, r_device_id = ''esp32-1'', r_timestamp = ''2026-11-02T09:30:00'',
           r_temperature = Finite (129 / 2), r_smoke = 120, r_gas = 90,
           r_risk_level = ''MEDIUM'', r_risk_code = 1\<rparr>]"
  by (simp add: latest_rows_def two_readings_eq sample_env_def int64_def
      order_by_id_desc_limit_def)

lemma latest_two_empty_device:
  "latest_rows sample_env (Some []) None two_readings =
     Inr [\<lparr>r_id = 2, r_device_id = ''esp32-2'', r_timestamp = ''2026-11-02T09:30:02'',
           r_temperature = Finite 31, r_smoke = 520, r_gas = 710,
           r_risk_level = ''HIGH'', r_risk_code = 2\<rparr>,
          \<lparr>r_id = 1, r_device_id = ''esp32-1'', r_timestamp = ''2026-11-02T09:30:00'',
           r_temperature = Finite (129 / 2), r_smoke = 120, r_gas = 90,
           r_risk_level = ''MEDIUM'', r_risk_code = 1\<rparr>]"
  by (simp add: latest_rows_def two_readings_eq int64_def order_by_id_desc_limit_def)

lemma latest_two_device:
  "latest_rows sample_env (Some ''esp32-1'') (Some ''2'') two_readings =
     Inr [\<lparr>r_id = 1, r_device_id = ''esp32-1'', r_timestamp = ''2026-11-02T09:30:00'',
           r_temperature = Finite (129 / 2), r_smoke = 120, r_gas = 90,
           r_risk_level = ''MEDIUM'', r_risk_code = 1\<rparr>]"
  by (simp add: latest_rows_def two_readings_eq sample_env_def int64_def
      order_by_id_desc_limit_def)


text \<open>
  C6 as stated fails twice on the table with one reading of each of two devices: with
  \<open>limit=-1\<close> the query returns both rows, which is more than the limit; and with an
  empty \<open>device_id\<close> argument it returns rows of devices other than the one named.
\<close>

theorem latest_rows_counterexample:
  "reachable two_readings
   \<and> py_int sample_env (JStr ''-1'') = Inr (- 1)
   \<and> latest_rows sample_env None (Some ''-1'') two_readings =
       Inr [\<lparr>r_id = 2, r_device_id = ''esp32-2'', r_timestamp = ''2026-11-02T09:30:02'',
           r_temperature = Finite 31, r_smoke = 520, r_gas = 710,
           r_risk_level = ''HIGH'', r_risk_code = 2\<rparr>,
          \<lparr>r_id = 1, r_device_id = ''esp32-1'', r_timestamp = ''2026-11-02T09:30:00'',
           r_temperature = Finite (129 / 2), r_smoke = 120, r_gas = 90,
           r_risk_level = ''MEDIUM'', r_risk_code = 1\<rparr>]
   \<and> \<not> int (length
         [\<lparr>r_id = 2, r_device_id = ''esp32-2'', r_timestamp = ''2026-11-02T09:30:02'',
           r_temperature = Finite 31, r_smoke = 520, r_gas = 710,
           r_risk_level = ''HIGH'', r_risk_code = 2\<rparr>,
          \<lparr>r_id = 1, r_device_id = ''esp32-1'', r_timestamp = ''2026-11-02T09:30:00'',
           r_temperature = Finite (129 / 2), r_smoke = 120, r_gas = 90,
           r_risk_level = ''MEDIUM'', r_risk_code = 1\<rparr>]) \<le> - 1
   \<and> latest_rows sample_env (Some []) None two_readings =
       Inr [\<lparr>r_id = 2, r_device_id = ''esp32-2'', r_timestamp = ''2026-11-02T09:30:02'',
           r_temperature = Finite 31, r_smoke = 520, r_gas = 710,
           r_risk_level = ''HIGH'', r_risk_code = 2\<rparr>,
          \<lparr>r_id = 1, r_device_id = ''esp32-1'', r_timestamp = ''2026-11-02T09:30:00'',
           r_temperature = Finite (129 / 2), r_smoke = 120, r_gas = 90,
           r_risk_level = ''MEDIUM'', r_risk_code = 1\<rparr>]
   \<and> r_device_id \<lparr>r_id = 2, r_device_id = ''esp32-2'', r_timestamp = ''2026-11-02T09:30:02'',
           r_temperature = Finite 31, r_smoke = 520, r_gas = 710,
           r_risk_level = ''HIGH'', r_risk_code = 2\<rparr> \<noteq> []"
  using reachable_two_readings latest_two_unbounded latest_two_empty_device
  by (simp add: sample_env_def)

section \<open>Properties of the model-based classifier\<close>

lemma rule_predict_ok: "risk_pair_ok (fst (rule_predict t s g)) (fst (snd (rule_predict t s g)))"
  by (simp add: rule_predict_def risk_pair_ok_def Let_def)

lemma risk_codes_get_known:
  "label = ''LOW'' \<or> label = ''MEDIUM'' \<or> label = ''HIGH'' \<Longrightarrow>
   risk_pair_ok label (risk_codes_get label)"
  by (auto simp add: risk_pair_ok_def risk_codes_get_def RISK_CODES_def)

lemma risk_codes_get_unknown:
  "label \<noteq> ''LOW'' \<Longrightarrow> label \<noteq> ''MEDIUM'' \<Longrightarrow> label \<noteq> ''HIGH'' \<Longrightarrow>
   risk_codes_get label = 0"
  by (simp add: risk_codes_get_def RISK_CODES_def)

lemma ml_predict_code:
  assumes "ml_predict env cls t s g = Inr (label, code, proba)"
  shows "code = risk_codes_get label"
proof (cases "predictor cls")
  case None
  then have "rule_predict t s g = (label, code, proba)"
    using assms by (simp add: ml_predict_def)
  then show ?thesis
    by (auto simp add: rule_predict_def Let_def risk_codes_get_def RISK_CODES_def
        split: if_splits)
next
  case (Some p)
  then show ?thesis
    using assms by (auto simp add: ml_predict_def ebind_Inr_iff Let_def)
qed

lemma ml_predict_label:
  assumes "ml_predict env cls t s g = Inr (label, code, proba)"
    and "predictor cls = Some p"
  shows "\<exists>le. label_enc cls = Some le \<and> label \<in> set (enc_classes le)"
  using assms
  by (auto simp add: ml_predict_def ebind_Inr_iff Let_def inverse_transform_def
      split: option.splits if_splits)

lemma ml_other_labels:
  "ml_predict sample_env other_labels_model (Finite (129 / 2)) 120 90 =
     Inr (''CRITICAL'', 0, Some [Finite (3 / 4), Finite (1 / 4)])"
  by (simp add: ml_predict_def other_labels_model_def sample_model_def sample_predictor_def
      float_of_int_def inverse_transform_def risk_codes_get_def RISK_CODES_def)


text \<open>
  C2 as stated fails for a label encoder fitted on other label names: the model-based
  classifier then returns the label CRITICAL with the code 0, which is the code of LOW.
\<close>

theorem ml_predict_pair_counterexample:
  "ml_predict sample_env other_labels_model (Finite (129 / 2)) 120 90 =
     Inr (''CRITICAL'', 0, Some [Finite (3 / 4), Finite (1 / 4)])
   \<and> ''CRITICAL'' \<noteq> ''LOW'' \<and> ''CRITICAL'' \<noteq> ''MEDIUM'' \<and> ''CRITICAL'' \<noteq> ''HIGH''
   \<and> \<not> risk_pair_ok ''CRITICAL'' 0"
  using ml_other_labels by (simp add: risk_pair_ok_def)

lemma ml_not_loaded_sample:
  "ml_predict sample_env not_loaded (Finite 31) 520 710 = Inr (''HIGH'', 2, None)"
  by (simp add: ml_predict_def not_loaded_def rule_predict_def rule_score_def)

section \<open>Failures during ingestion\<close>

lemma receive_sensor_data_obj:
  assumes "map_of kvs ''device_id'' = Some dv" "map_of kvs ''temperature'' = Some tv"
    "map_of kvs ''smoke'' = Some sv" "map_of kvs ''gas'' = Some gv"
  shows "receive_sensor_data env cls now (JObj kvs) st =
     (case
        ebind (coerce_features env tv sv gv) (\<lambda>(t, s, g).
        ebind (ml_predict env cls t s g) (\<lambda>(label, code, proba).
        ebind (insert_reading env st dv now t s g label code) (\<lambda>st'.
        Inr (JObj (add_probabilities env cls proba
                     [(''status'', JStr ''ok''), (''risk_level'', JStr label),
                      (''risk_code'', JInt code)]), st'))))
      of
        Inl e \<Rightarrow> (Inl e, st)
      | Inr (body, st') \<Rightarrow> (Inr (body, 200), st'))"
proof -
  have ne: "kvs \<noteq> []" using assms(1) by auto
  show ?thesis
    by (simp add: receive_sensor_data_def coerce_features_def ne assms ebind_def
        split: sum.splits prod.splits)
qed

text \<open>
  C4 (as amended): when the body is an object with the four required fields and one of
  temperature, smoke and gas cannot be converted, the handler returns no validation
  error: the exception of the first conversion that fails leaves the handler (it names
  no field), and the table is unchanged.
\<close>

theorem coercion_failure_propagates:
  "map_of kvs ''device_id'' = Some dv \<Longrightarrow> map_of kvs ''temperature'' = Some tv \<Longrightarrow>
   map_of kvs ''smoke'' = Some sv \<Longrightarrow> map_of kvs ''gas'' = Some gv \<Longrightarrow>
   coerce_features env tv sv gv = Inl e \<Longrightarrow>
   receive_sensor_data env cls now (JObj kvs) st = (Inl e, st)"
  by (simp add: receive_sensor_data_obj)

lemma ml_failing:
  "ml_predict sample_env failing_model (Finite (129 / 2)) 120 90 =
     Inl (ModelError ''X has 3 features, but the estimator expects 4'')"
  by (simp add: ml_predict_def failing_model_def sample_model_def sample_predictor_def
      float_of_int_def)

text \<open>
  C3 as stated fails: with a predictor loaded whose \<open>predict\<close> rejects the feature row,
  ingestion of a well-formed reading raises the predictor's exception and stores nothing.
\<close>

theorem model_failure_counterexample:
  "predictor failing_model \<noteq> None
   \<and> receive_sensor_data sample_env failing_model ''2026-11-02T09:30:00''
       (JObj [(''device_id'', JStr ''esp32-1''), (''temperature'', JFloat (Finite (129 / 2))),
              (''smoke'', JInt 120), (''gas'', JInt 90)]) init_db =
     (Inl (ModelError ''X has 3 features, but the estimator expects 4''), init_db)"
  by (simp add: receive_sensor_data_def ml_failing) (simp add: failing_model_def)

text \<open>
  C4 as stated fails: a temperature of \<open>"hot"\<close> makes ingestion raise ValueError, and a
  smoke value of \<open>null\<close> makes it raise TypeError; neither is answered with an error
  object.
\<close>

theorem coercion_failure_counterexample:
  "receive_sensor_data sample_env not_loaded ''2026-11-02T09:30:00''
       (JObj [(''device_id'', JStr ''esp32-1''), (''temperature'', JStr ''hot''),
              (''smoke'', JInt 120), (''gas'', JInt 90)]) init_db =
     (Inl ValueError, init_db)
   \<and> receive_sensor_data sample_env not_loaded ''2026-11-02T09:30:00''
       (JObj [(''device_id'', JStr ''esp32-1''), (''temperature'', JFloat (Finite (129 / 2))),
              (''smoke'', JNull), (''gas'', JInt 90)]) init_db =
     (Inl TypeError, init_db)"
  by (simp add: receive_sensor_data_def sample_env_def)

theorem coercion_failure_propagates_witness:
  "coerce_features sample_env (JFloat (Finite (129 / 2))) (JInt 120) (JArr [JInt 90]) = Inl TypeError
   \<and> receive_sensor_data sample_env sample_model ''2026-11-02T09:30:00''
       (JObj [(''device_id'', JStr ''esp32-1''), (''temperature'', JFloat (Finite (129 / 2))),
              (''smoke'', JInt 120), (''gas'', JArr [JInt 90])]) init_db =
     (Inl TypeError, init_db)"
proof -
  let ?kvs = "[(''device_id'', JStr ''esp32-1''), (''temperature'', JFloat (Finite (129 / 2))),
               (''smoke'', JInt 120), (''gas'', JArr [JInt 90])]"
  have f: "map_of ?kvs ''device_id'' = Some (JStr ''esp32-1'')"
    "map_of ?kvs ''temperature'' = Some (JFloat (Finite (129 / 2)))"
    "map_of ?kvs ''smoke'' = Some (JInt 120)" "map_of ?kvs ''gas'' = Some (JArr [JInt 90])"
    by simp_all
  have c: "coerce_features sample_env (JFloat (Finite (129 / 2))) (JInt 120) (JArr [JInt 90]) =
     Inl TypeError"
    by (simp add: coerce_features_def)
  show ?thesis
    using c coercion_failure_propagates
      [OF f c, of sample_model "''2026-11-02T09:30:00''" init_db]
    by (rule conjI)
qed

section \<open>The statistics of a table with readings\<close>

text \<open>
  The branch of \<open>get_stats\<close> for a window that is not empty, on the table of two
  readings with a cutoff one day before them: the averages are 47.75, 320 and 400, the
  maximum is 64.5.
\<close>

lemma get_stats_two_readings:
  "get_stats sample_env not_loaded ''2026-11-01T09:30:01'' two_readings =
     (Inr (JObj [(''total_readings'', JInt 2),
                 (''risk_distribution'',
                    JObj [(''LOW'', JInt 0), (''MEDIUM'', JInt 1), (''HIGH'', JInt 1)]),
                 (''last_24h'',
                    JObj [(''count'', JInt 2), (''avg_temp'', JFloat (Finite (191 / 4))),
                          (''avg_smoke'', JFloat (Finite 320)), (''avg_gas'', JFloat (Finite 400)),
                          (''max_temp'', JFloat (Finite (129 / 2)))]),
                 (''model'', JStr ''rule-based'')], 200), two_readings)"
  by (simp add: get_stats_def two_readings_eq count_level_def text_ge_def sample_env_def
      not_loaded_def)

section \<open>The model path, the latest readings and the defaults in full\<close>

lemma ml_predict_loaded:
  "predictor cls = Some p \<Longrightarrow>
   ml_predict env cls t s g =
     ebind (model_input env cls t s g) (\<lambda>x.
     ebind (predict p x) (\<lambda>enc.
     ebind (predict_proba p x) (\<lambda>pr.
     ebind (case label_enc cls of
              None \<Rightarrow> Inl AttributeError
            | Some le \<Rightarrow> inverse_transform le enc) (\<lambda>label.
     Inr (label, risk_codes_get label, Some pr)))))"
  by (simp add: ml_predict_def model_input_def ebind_def Let_def split: sum.splits)

lemma risk_codes_get_if:
  "risk_codes_get label =
     (if label = ''LOW'' then 0 else if label = ''MEDIUM'' then 1
      else if label = ''HIGH'' then 2 else 0)"
  by (simp add: risk_codes_get_def RISK_CODES_def)

lemma ml_predict_decodes:
  assumes "ml_predict env cls t s g = Inr (label, code, proba)" "predictor cls = Some p"
  shows "\<exists>x enc pr le. model_input env cls t s g = Inr x \<and> predict p x = Inr enc
           \<and> predict_proba p x = Inr pr \<and> label_enc cls = Some le
           \<and> 0 \<le> enc \<and> enc < int (length (enc_classes le))
           \<and> label = enc_classes le ! nat enc \<and> proba = Some pr"
  using assms(1) unfolding ml_predict_loaded [OF assms(2)]
  by (auto simp add: ebind_Inr_iff inverse_transform_def split: option.splits if_splits)


text \<open>
  C2 (as amended): the rule-based classifier always returns a label of LOW, MEDIUM, HIGH
  with its code. Whatever \<open>ml_predict\<close> returns, the code is the code of the label when
  the label is one of the three, and 0 when it is any other label. With no predictor
  loaded the result is that of the rule-based classifier. With a predictor loaded the
  label is the class that the loaded label encoder holds at the index the predictor
  returns for the feature row, and the probabilities are the predictor's. So label and
  code agree whenever no model is loaded, and whenever the classes of the loaded label
  encoder are among LOW, MEDIUM and HIGH.
\<close>

theorem ml_predict_code_of_label:
  "ml_predict env cls t s g = Inr (label, code, proba) \<Longrightarrow>
   risk_pair_ok (fst (rule_predict t s g)) (fst (snd (rule_predict t s g)))
   \<and> code = (if label = ''LOW'' then 0 else if label = ''MEDIUM'' then 1
              else if label = ''HIGH'' then 2 else 0)
   \<and> (label = ''LOW'' \<or> label = ''MEDIUM'' \<or> label = ''HIGH'' \<longrightarrow> risk_pair_ok label code)
   \<and> (label \<noteq> ''LOW'' \<and> label \<noteq> ''MEDIUM'' \<and> label \<noteq> ''HIGH'' \<longrightarrow> code = 0)
   \<and> (predictor cls = None \<longrightarrow>
        (label, code, proba) = rule_predict t s g \<and> risk_pair_ok label code)
   \<and> (predictor cls = Some p \<longrightarrow>
        (\<exists>x enc pr le'. model_input env cls t s g = Inr x \<and> predict p x = Inr enc
           \<and> predict_proba p x = Inr pr \<and> label_enc cls = Some le'
           \<and> 0 \<le> enc \<and> enc < int (length (enc_classes le'))
           \<and> label = enc_classes le' ! nat enc \<and> proba = Some pr))
   \<and> (label_enc cls = Some le \<and> set (enc_classes le) \<subseteq> {''LOW'', ''MEDIUM'', ''HIGH''}
        \<longrightarrow> risk_pair_ok label code)"
proof -
  assume m: "ml_predict env cls t s g = Inr (label, code, proba)"
  have c: "code = risk_codes_get label" by (rule ml_predict_code [OF m])
  have r: "(label, code, proba) = rule_predict t s g" if "predictor cls = None"
    using m that by (simp add: ml_predict_def)
  have n: "risk_pair_ok label code" if "predictor cls = None"
    using r [OF that] rule_predict_ok [of t s g] by (metis fst_conv snd_conv)
  have d: "\<exists>x enc pr le'. model_input env cls t s g = Inr x \<and> predict p x = Inr enc
           \<and> predict_proba p x = Inr pr \<and> label_enc cls = Some le'
           \<and> 0 \<le> enc \<and> enc < int (length (enc_classes le'))
           \<and> label = enc_classes le' ! nat enc \<and> proba = Some pr"
    if "predictor cls = Some p"
    by (rule ml_predict_decodes [OF m that])
  have e: "risk_pair_ok label code"
    if "label_enc cls = Some le" "set (enc_classes le) \<subseteq> {''LOW'', ''MEDIUM'', ''HIGH''}"
  proof (cases "predictor cls")
    case None
    then show ?thesis by (rule n)
  next
    case (Some q)
    from ml_predict_label [OF m Some] that have "label \<in> {''LOW'', ''MEDIUM'', ''HIGH''}"
      by auto
    then show ?thesis unfolding c by (intro risk_codes_get_known) simp
  qed
  have k: "label = ''LOW'' \<or> label = ''MEDIUM'' \<or> label = ''HIGH'' \<longrightarrow> risk_pair_ok label code"
    unfolding c using risk_codes_get_known [of label] by blast
  have u: "label \<noteq> ''LOW'' \<and> label \<noteq> ''MEDIUM'' \<and> label \<noteq> ''HIGH'' \<longrightarrow> code = 0"
    unfolding c using risk_codes_get_unknown [of label] by blast
  have i: "code = (if label = ''LOW'' then 0 else if label = ''MEDIUM'' then 1
              else if label = ''HIGH'' then 2 else 0)"
    unfolding c by (rule risk_codes_get_if)
  show ?thesis
    using rule_predict_ok [of t s g] i k u r n d e by blast
qed

lemma ml_sample_low:
  "ml_predict sample_env sample_model (Finite 31) 120 90 =
     Inr (''LOW'', 0, Some [Finite (1 / 4), Finite (3 / 4)])"
  by (simp add: ml_predict_def sample_model_def sample_predictor_def float_of_int_def
      inverse_transform_def risk_codes_get_def RISK_CODES_def)

lemma model_input_sample:
  "model_input sample_env sample_model (Finite 31) 120 90 = Inr (Finite 31, Finite 120, Finite 90)"
  by (simp add: model_input_def sample_model_def float_of_int_def)

theorem ml_predict_code_of_label_witness:
  "ml_predict sample_env sample_model (Finite 31) 120 90 =
     Inr (''LOW'', 0, Some [Finite (1 / 4), Finite (3 / 4)])
   \<and> predictor sample_model = Some sample_predictor
   \<and> model_input sample_env sample_model (Finite 31) 120 90 =
       Inr (Finite 31, Finite 120, Finite 90)
   \<and> predict sample_predictor (Finite 31, Finite 120, Finite 90) = Inr 1
   \<and> label_enc sample_model = Some \<lparr>enc_classes = [''HIGH'', ''LOW'']\<rparr>
   \<and> ''LOW'' = enc_classes \<lparr>enc_classes = [''HIGH'', ''LOW'']\<rparr> ! nat 1
   \<and> set (enc_classes \<lparr>enc_classes = [''HIGH'', ''LOW'']\<rparr>) \<subseteq> {''LOW'', ''MEDIUM'', ''HIGH''}
   \<and> risk_pair_ok ''LOW'' 0
   \<and> ml_predict sample_env not_loaded (Finite 31) 520 710 = Inr (''HIGH'', 2, None)
   \<and> predictor not_loaded = None
   \<and> (''HIGH'', 2, None) = rule_predict (Finite 31) 520 710
   \<and> risk_pair_ok ''HIGH'' 2
   \<and> ml_predict sample_env other_labels_model (Finite (129 / 2)) 120 90 =
     Inr (''CRITICAL'', 0, Some [Finite (3 / 4), Finite (1 / 4)])
   \<and> ''CRITICAL'' \<noteq> ''LOW'' \<and> ''CRITICAL'' \<noteq> ''MEDIUM'' \<and> ''CRITICAL'' \<noteq> ''HIGH''"
proof -
  have le: "label_enc sample_model = Some \<lparr>enc_classes = [''HIGH'', ''LOW'']\<rparr>"
    by (simp add: sample_model_def)
  have sub: "set (enc_classes \<lparr>enc_classes = [''HIGH'', ''LOW'']\<rparr>) \<subseteq> {''LOW'', ''MEDIUM'', ''HIGH''}"
    by simp
  have p: "predictor not_loaded = None"
    by (simp add: not_loaded_def)
  have q: "predictor sample_model = Some sample_predictor"
    by (simp add: sample_model_def)
  have pr: "predict sample_predictor (Finite 31, Finite 120, Finite 90) = Inr 1"
    by (simp add: sample_predictor_def)
  note a = ml_predict_code_of_label
    [OF ml_sample_low, of sample_predictor "\<lparr>enc_classes = [''HIGH'', ''LOW'']\<rparr>"]
  note b = ml_predict_code_of_label
    [OF ml_not_loaded_sample, of sample_predictor "\<lparr>enc_classes = []\<rparr>"]
  note c = ml_predict_code_of_label
    [OF ml_other_labels, of sample_predictor "\<lparr>enc_classes = []\<rparr>"]
  have ok: "risk_pair_ok ''LOW'' 0"
    using a le sub by blast
  from a q obtain x enc le' where
    "model_input sample_env sample_model (Finite 31) 120 90 = Inr x"
    "predict sample_predictor x = Inr enc" "label_enc sample_model = Some le'"
    "''LOW'' = enc_classes le' ! nat enc"
    by blast
  then have dec: "''LOW'' = enc_classes \<lparr>enc_classes = [''HIGH'', ''LOW'']\<rparr> ! nat 1"
    using model_input_sample pr le by simp
  have rl: "(''HIGH'', 2, None) = rule_predict (Finite 31) 520 710 \<and> risk_pair_ok ''HIGH'' 2"
    using b p by blast
  have z: "''CRITICAL'' \<noteq> ''LOW'' \<and> ''CRITICAL'' \<noteq> ''MEDIUM'' \<and> ''CRITICAL'' \<noteq> ''HIGH''"
    by simp
  have "(0::int) = 0" using c z by blast
  then show ?thesis
    using ml_sample_low q model_input_sample pr le dec sub ok ml_not_loaded_sample p rl
      ml_other_labels z
    by blast
qed


text \<open>
  C3 (as amended): for a body whose three readings convert, an exception raised inside
  \<open>ml_predict\<close> leaves the ingestion handler as it is, and nothing is stored; there is
  no fallback for it. With a predictor loaded this is so for every step of the model
  path: the conversion of smoke or gas to a float, the lookup of \<open>use_scaled\<close> in the
  metadata, a scaler that is \<open>None\<close> or whose \<open>transform\<close> raises, a \<open>predict\<close> or
  \<open>predict_proba\<close> that raises, a label encoder that is \<open>None\<close>, and a predicted index
  outside the encoder's classes. When no predictor is loaded the rule-based classifier
  is used: then \<open>ml_predict\<close> cannot fail, and ingestion answers with the rule-based
  label and code once the row is inserted.
\<close>

theorem model_failure_propagates:
  "map_of kvs ''device_id'' = Some dv \<Longrightarrow> map_of kvs ''temperature'' = Some tv \<Longrightarrow>
   map_of kvs ''smoke'' = Some sv \<Longrightarrow> map_of kvs ''gas'' = Some gv \<Longrightarrow>
   coerce_features env tv sv gv = Inr (t, s, g) \<Longrightarrow>
   (ml_predict env cls t s g = Inl e \<longrightarrow>
      receive_sensor_data env cls now (JObj kvs) st = (Inl e, st))
   \<and> (predictor cls = None \<longrightarrow>
        ml_predict env cls t s g = Inr (rule_predict t s g)
        \<and> receive_sensor_data env cls now (JObj kvs) st =
            (case insert_reading env st dv now t s g
                    (fst (rule_predict t s g)) (fst (snd (rule_predict t s g))) of
               Inl e' \<Rightarrow> (Inl e', st)
             | Inr st' \<Rightarrow>
                 (Inr (JObj [(''status'', JStr ''ok''),
                             (''risk_level'', JStr (fst (rule_predict t s g))),
                             (''risk_code'', JInt (fst (snd (rule_predict t s g))))], 200), st')))
   \<and> (predictor cls = Some p \<longrightarrow>
        (float_of_int env s = Inl e \<longrightarrow> receive_sensor_data env cls now (JObj kvs) st = (Inl e, st))
        \<and> (float_of_int env s = Inr fs \<and> float_of_int env g = Inl e \<longrightarrow> receive_sensor_data env cls now (JObj kvs) st = (Inl e, st))
        \<and> (float_of_int env s = Inr fs \<and> float_of_int env g = Inr fg
             \<and> py_get (model_meta cls) ''use_scaled'' JNull = Inl e \<longrightarrow> receive_sensor_data env cls now (JObj kvs) st = (Inl e, st))
        \<and> (float_of_int env s = Inr fs \<and> float_of_int env g = Inr fg
             \<and> py_get (model_meta cls) ''use_scaled'' JNull = Inr flag \<and> truthy flag
             \<and> scaler cls = None \<longrightarrow> receive_sensor_data env cls now (JObj kvs) st = (Inl AttributeError, st))
        \<and> (float_of_int env s = Inr fs \<and> float_of_int env g = Inr fg
             \<and> py_get (model_meta cls) ''use_scaled'' JNull = Inr flag \<and> truthy flag
             \<and> scaler cls = Some sc \<and> transform sc (t, fs, fg) = Inl e \<longrightarrow> receive_sensor_data env cls now (JObj kvs) st = (Inl e, st))
        \<and> (model_input env cls t s g = Inr x \<and> predict p x = Inl e \<longrightarrow> receive_sensor_data env cls now (JObj kvs) st = (Inl e, st))
        \<and> (model_input env cls t s g = Inr x \<and> predict p x = Inr enc
             \<and> predict_proba p x = Inl e \<longrightarrow> receive_sensor_data env cls now (JObj kvs) st = (Inl e, st))
        \<and> (model_input env cls t s g = Inr x \<and> predict p x = Inr enc
             \<and> predict_proba p x = Inr pr \<and> label_enc cls = None \<longrightarrow>
             receive_sensor_data env cls now (JObj kvs) st = (Inl AttributeError, st))
        \<and> (model_input env cls t s g = Inr x \<and> predict p x = Inr enc
             \<and> predict_proba p x = Inr pr \<and> label_enc cls = Some le
             \<and> \<not> (0 \<le> enc \<and> enc < int (length (enc_classes le))) \<longrightarrow>
             receive_sensor_data env cls now (JObj kvs) st = (Inl ValueError, st)))"
proof -
  assume f: "map_of kvs ''device_id'' = Some dv" "map_of kvs ''temperature'' = Some tv"
    "map_of kvs ''smoke'' = Some sv" "map_of kvs ''gas'' = Some gv"
    and c: "coerce_features env tv sv gv = Inr (t, s, g)"
  note r = receive_sensor_data_obj [OF f, of env cls now st, unfolded c]
  have a: "receive_sensor_data env cls now (JObj kvs) st = (Inl e', st)"
    if "ml_predict env cls t s g = Inl e'" for e'
    using that by (simp add: r)
  have n: "rule_predict t s g = (fst (rule_predict t s g), fst (snd (rule_predict t s g)), None)"
    by (simp add: rule_predict_def Let_def)
  have b: "receive_sensor_data env cls now (JObj kvs) st =
            (case insert_reading env st dv now t s g
                    (fst (rule_predict t s g)) (fst (snd (rule_predict t s g))) of
               Inl e' \<Rightarrow> (Inl e', st)
             | Inr st' \<Rightarrow>
                 (Inr (JObj [(''status'', JStr ''ok''),
                             (''risk_level'', JStr (fst (rule_predict t s g))),
                             (''risk_code'', JInt (fst (snd (rule_predict t s g))))], 200), st'))"
    if "predictor cls = None"
  proof -
    have "ml_predict env cls t s g =
        Inr (fst (rule_predict t s g), fst (snd (rule_predict t s g)), None)"
      using that n by (simp add: ml_predict_def)
    then show ?thesis
      by (simp add: r add_probabilities_def split: sum.splits)
  qed
  have m: "ml_predict env cls t s g = Inr (rule_predict t s g)" if "predictor cls = None"
    using that by (simp add: ml_predict_def)
  have l: "(float_of_int env s = Inl e \<longrightarrow> receive_sensor_data env cls now (JObj kvs) st = (Inl e, st))
        \<and> (float_of_int env s = Inr fs \<and> float_of_int env g = Inl e \<longrightarrow> receive_sensor_data env cls now (JObj kvs) st = (Inl e, st))
        \<and> (float_of_int env s = Inr fs \<and> float_of_int env g = Inr fg
             \<and> py_get (model_meta cls) ''use_scaled'' JNull = Inl e \<longrightarrow> receive_sensor_data env cls now (JObj kvs) st = (Inl e, st))
        \<and> (float_of_int env s = Inr fs \<and> float_of_int env g = Inr fg
             \<and> py_get (model_meta cls) ''use_scaled'' JNull = Inr flag \<and> truthy flag
             \<and> scaler cls = None \<longrightarrow> receive_sensor_data env cls now (JObj kvs) st = (Inl AttributeError, st))
        \<and> (float_of_int env s = Inr fs \<and> float_of_int env g = Inr fg
             \<and> py_get (model_meta cls) ''use_scaled'' JNull = Inr flag \<and> truthy flag
             \<and> scaler cls = Some sc \<and> transform sc (t, fs, fg) = Inl e \<longrightarrow> receive_sensor_data env cls now (JObj kvs) st = (Inl e, st))
        \<and> (model_input env cls t s g = Inr x \<and> predict p x = Inl e \<longrightarrow> receive_sensor_data env cls now (JObj kvs) st = (Inl e, st))
        \<and> (model_input env cls t s g = Inr x \<and> predict p x = Inr enc
             \<and> predict_proba p x = Inl e \<longrightarrow> receive_sensor_data env cls now (JObj kvs) st = (Inl e, st))
        \<and> (model_input env cls t s g = Inr x \<and> predict p x = Inr enc
             \<and> predict_proba p x = Inr pr \<and> label_enc cls = None \<longrightarrow>
             receive_sensor_data env cls now (JObj kvs) st = (Inl AttributeError, st))
        \<and> (model_input env cls t s g = Inr x \<and> predict p x = Inr enc
             \<and> predict_proba p x = Inr pr \<and> label_enc cls = Some le
             \<and> \<not> (0 \<le> enc \<and> enc < int (length (enc_classes le))) \<longrightarrow>
             receive_sensor_data env cls now (JObj kvs) st = (Inl ValueError, st))"
    if q: "predictor cls = Some p"
  proof (intro conjI impI; (elim conjE)?; rule a)
    assume "float_of_int env s = Inl e"
    then show "ml_predict env cls t s g = Inl e"
      by (simp add: ml_predict_loaded [OF q] model_input_def)
  next
    assume "float_of_int env s = Inr fs" "float_of_int env g = Inl e"
    then show "ml_predict env cls t s g = Inl e"
      by (simp add: ml_predict_loaded [OF q] model_input_def)
  next
    assume "float_of_int env s = Inr fs" "float_of_int env g = Inr fg"
      "py_get (model_meta cls) ''use_scaled'' JNull = Inl e"
    then show "ml_predict env cls t s g = Inl e"
      by (simp add: ml_predict_loaded [OF q] model_input_def)
  next
    assume "float_of_int env s = Inr fs" "float_of_int env g = Inr fg"
      "py_get (model_meta cls) ''use_scaled'' JNull = Inr flag" "truthy flag" "scaler cls = None"
    then show "ml_predict env cls t s g = Inl AttributeError"
      by (simp add: ml_predict_loaded [OF q] model_input_def)
  next
    assume "float_of_int env s = Inr fs" "float_of_int env g = Inr fg"
      "py_get (model_meta cls) ''use_scaled'' JNull = Inr flag" "truthy flag"
      "scaler cls = Some sc" "transform sc (t, fs, fg) = Inl e"
    then show "ml_predict env cls t s g = Inl e"
      by (simp add: ml_predict_loaded [OF q] model_input_def)
  next
    assume "model_input env cls t s g = Inr x" "predict p x = Inl e"
    then show "ml_predict env cls t s g = Inl e"
      by (simp add: ml_predict_loaded [OF q])
  next
    assume "model_input env cls t s g = Inr x" "predict p x = Inr enc" "predict_proba p x = Inl e"
    then show "ml_predict env cls t s g = Inl e"
      by (simp add: ml_predict_loaded [OF q])
  next
    assume "model_input env cls t s g = Inr x" "predict p x = Inr enc"
      "predict_proba p x = Inr pr" "label_enc cls = None"
    then show "ml_predict env cls t s g = Inl AttributeError"
      by (simp add: ml_predict_loaded [OF q])
  next
    assume "model_input env cls t s g = Inr x" "predict p x = Inr enc"
      "predict_proba p x = Inr pr" "label_enc cls = Some le"
      "\<not> (0 \<le> enc \<and> enc < int (length (enc_classes le)))"
    then show "ml_predict env cls t s g = Inl ValueError"
      by (simp add: ml_predict_loaded [OF q] inverse_transform_def)
  qed
  have one: "ml_predict env cls t s g = Inl e \<longrightarrow> receive_sensor_data env cls now (JObj kvs) st = (Inl e, st)"
    using a by blast
  have two: "predictor cls = None \<longrightarrow>
        ml_predict env cls t s g = Inr (rule_predict t s g)
        \<and> receive_sensor_data env cls now (JObj kvs) st =
            (case insert_reading env st dv now t s g
                    (fst (rule_predict t s g)) (fst (snd (rule_predict t s g))) of
               Inl e' \<Rightarrow> (Inl e', st)
             | Inr st' \<Rightarrow>
                 (Inr (JObj [(''status'', JStr ''ok''),
                             (''risk_level'', JStr (fst (rule_predict t s g))),
                             (''risk_code'', JInt (fst (snd (rule_predict t s g))))], 200), st'))"
    using b m by blast
  show ?thesis
    by (rule conjI [OF one conjI [OF two impI]]) (erule l)
qed


theorem model_failure_propagates_witness:
  "coerce_features sample_env (JFloat (Finite (129 / 2))) (JInt 120) (JInt 90) =
     Inr (Finite (129 / 2), 120, 90)
   \<and> predictor failing_model = Some (sample_predictor\<lparr>predict := (\<lambda>x. Inl (ModelError ''X has 3 features, but the estimator expects 4''))\<rparr>)
   \<and> model_input sample_env failing_model (Finite (129 / 2)) 120 90 =
       Inr (Finite (129 / 2), Finite 120, Finite 90)
   \<and> predict (sample_predictor\<lparr>predict := (\<lambda>x. Inl (ModelError ''X has 3 features, but the estimator expects 4''))\<rparr>)
         (Finite (129 / 2), Finite 120, Finite 90) = Inl (ModelError ''X has 3 features, but the estimator expects 4'')
   \<and> receive_sensor_data sample_env failing_model ''2026-11-02T09:30:00''
       (JObj [(''device_id'', JStr ''esp32-1''), (''temperature'', JFloat (Finite (129 / 2))),
              (''smoke'', JInt 120), (''gas'', JInt 90)]) init_db =
     (Inl (ModelError ''X has 3 features, but the estimator expects 4''), init_db)
   \<and> predictor not_loaded = None
   \<and> ml_predict sample_env not_loaded (Finite (129 / 2)) 120 90 = Inr (''MEDIUM'', 1, None)
   \<and> receive_sensor_data sample_env not_loaded ''2026-11-02T09:30:00''
       (JObj [(''device_id'', JStr ''esp32-1''), (''temperature'', JFloat (Finite (129 / 2))),
              (''smoke'', JInt 120), (''gas'', JInt 90)]) init_db =
     (Inr (JObj [(''status'', JStr ''ok''), (''risk_level'', JStr ''MEDIUM''),
                 (''risk_code'', JInt 1)], 200), one_reading)
   \<and> coerce_features sample_env (JFloat (Finite 31)) (JInt 520) (JInt 710) =
       Inr (Finite 31, 520, 710)
   \<and> model_input sample_env (sample_model\<lparr>label_enc := Some \<lparr>enc_classes = [''HIGH'']\<rparr>\<rparr>)
         (Finite 31) 520 710 = Inr (Finite 31, Finite 520, Finite 710)
   \<and> predict sample_predictor (Finite 31, Finite 520, Finite 710) = Inr 1
   \<and> \<not> (0 \<le> (1::int) \<and> (1::int) < int (length (enc_classes \<lparr>enc_classes = [''HIGH'']\<rparr>)))
   \<and> receive_sensor_data sample_env
         (sample_model\<lparr>label_enc := Some \<lparr>enc_classes = [''HIGH'']\<rparr>\<rparr>) ''2026-11-02T09:30:02''
       (JObj [(''device_id'', JStr ''esp32-2''), (''temperature'', JFloat (Finite 31)),
              (''smoke'', JInt 520), (''gas'', JInt 710)]) one_reading =
     (Inl ValueError, one_reading)
   \<and> truthy (JBool True)
   \<and> scaler (sample_model\<lparr>scaler := None, model_meta := JObj [(''use_scaled'', JBool True)]\<rparr>) = None
   \<and> receive_sensor_data sample_env
         (sample_model\<lparr>scaler := None, model_meta := JObj [(''use_scaled'', JBool True)]\<rparr>)
         ''2026-11-02T09:30:02''
       (JObj [(''device_id'', JStr ''esp32-2''), (''temperature'', JFloat (Finite 31)),
              (''smoke'', JInt 520), (''gas'', JInt 710)]) one_reading =
     (Inl AttributeError, one_reading)"
proof -
  let ?kvs = "[(''device_id'', JStr ''esp32-1''), (''temperature'', JFloat (Finite (129 / 2))),
               (''smoke'', JInt 120), (''gas'', JInt 90)]"
  let ?kvs2 = "[(''device_id'', JStr ''esp32-2''), (''temperature'', JFloat (Finite 31)),
               (''smoke'', JInt 520), (''gas'', JInt 710)]"
  let ?P = "sample_predictor\<lparr>predict := (\<lambda>x. Inl (ModelError ''X has 3 features, but the estimator expects 4''))\<rparr>"
  let ?short = "sample_model\<lparr>label_enc := Some \<lparr>enc_classes = [''HIGH'']\<rparr>\<rparr>"
  let ?unscaled = "sample_model\<lparr>scaler := None, model_meta := JObj [(''use_scaled'', JBool True)]\<rparr>"
  have f: "map_of ?kvs ''device_id'' = Some (JStr ''esp32-1'')"
    "map_of ?kvs ''temperature'' = Some (JFloat (Finite (129 / 2)))"
    "map_of ?kvs ''smoke'' = Some (JInt 120)" "map_of ?kvs ''gas'' = Some (JInt 90)"
    by simp_all
  have f2: "map_of ?kvs2 ''device_id'' = Some (JStr ''esp32-2'')"
    "map_of ?kvs2 ''temperature'' = Some (JFloat (Finite 31))"
    "map_of ?kvs2 ''smoke'' = Some (JInt 520)" "map_of ?kvs2 ''gas'' = Some (JInt 710)"
    by simp_all
  have c: "coerce_features sample_env (JFloat (Finite (129 / 2))) (JInt 120) (JInt 90) =
     Inr (Finite (129 / 2), 120, 90)"
    by (simp add: coerce_features_def)
  have c2: "coerce_features sample_env (JFloat (Finite 31)) (JInt 520) (JInt 710) =
     Inr (Finite 31, 520, 710)"
    by (simp add: coerce_features_def)
  have p: "predictor not_loaded = None" by (simp add: not_loaded_def)
  have q: "predictor failing_model = Some ?P"
    by (simp add: failing_model_def)
  have q2: "predictor ?short = Some sample_predictor" "predictor ?unscaled = Some sample_predictor"
    by (simp_all add: sample_model_def)
  have mi: "model_input sample_env failing_model (Finite (129 / 2)) 120 90 =
       Inr (Finite (129 / 2), Finite 120, Finite 90)"
    by (simp add: model_input_def failing_model_def sample_model_def float_of_int_def)
  have mi2: "model_input sample_env ?short (Finite 31) 520 710 =
       Inr (Finite 31, Finite 520, Finite 710)"
    by (simp add: model_input_def sample_model_def float_of_int_def)
  have pf: "predict ?P (Finite (129 / 2), Finite 120, Finite 90) = Inl (ModelError ''X has 3 features, but the estimator expects 4'')"
    by simp
  have p1: "predict sample_predictor (Finite 31, Finite 520, Finite 710) = Inr 1"
    "predict_proba sample_predictor (Finite 31, Finite 520, Finite 710) =
       Inr [Finite (1 / 4), Finite (3 / 4)]"
    by (simp_all add: sample_predictor_def)
  have le: "label_enc ?short = Some \<lparr>enc_classes = [''HIGH'']\<rparr>"
    by simp
  have oob: "\<not> (0 \<le> (1::int) \<and> (1::int) < int (length (enc_classes \<lparr>enc_classes = [''HIGH'']\<rparr>)))"
    by simp
  have fl: "float_of_int sample_env 520 = Inr (Finite 520)" "float_of_int sample_env 710 = Inr (Finite 710)"
    by (simp_all add: float_of_int_def)
  have us: "py_get (model_meta ?unscaled) ''use_scaled'' JNull = Inr (JBool True)"
    "truthy (JBool True)" "scaler ?unscaled = None"
    by simp_all
  have rp: "rule_predict (Finite (129 / 2)) 120 90 = (''MEDIUM'', 1, None)"
    by (simp add: rule_predict_def rule_score_def)
  have i: "insert_reading sample_env init_db (JStr ''esp32-1'') ''2026-11-02T09:30:00''
             (Finite (129 / 2)) 120 90 ''MEDIUM'' 1 = Inr one_reading"
    by (simp add: insert_reading_def init_db_def int64_def one_reading_eq)
  note a = model_failure_propagates [OF f c, where cls = failing_model and p = "?P"
    and now = "''2026-11-02T09:30:00''" and st = init_db
    and x = "(Finite (129 / 2), Finite 120, Finite 90)" and e = "ModelError ''X has 3 features, but the estimator expects 4''"]
  note b = model_failure_propagates [OF f c, where cls = not_loaded
    and now = "''2026-11-02T09:30:00''" and st = init_db]
  note d = model_failure_propagates [OF f2 c2, where cls = "?short" and p = sample_predictor
    and now = "''2026-11-02T09:30:02''" and st = one_reading
    and x = "(Finite 31, Finite 520, Finite 710)" and enc = 1
    and pr = "[Finite (1 / 4), Finite (3 / 4)]" and le = "\<lparr>enc_classes = [''HIGH'']\<rparr>"]
  note u = model_failure_propagates [OF f2 c2, where cls = "?unscaled" and p = sample_predictor
    and now = "''2026-11-02T09:30:02''" and st = one_reading
    and fs = "Finite 520" and fg = "Finite 710" and flag = "JBool True"]
  have one: "receive_sensor_data sample_env failing_model ''2026-11-02T09:30:00'' (JObj ?kvs) init_db =
     (Inl (ModelError ''X has 3 features, but the estimator expects 4''), init_db)"
    using a q mi pf by blast
  have two: "ml_predict sample_env not_loaded (Finite (129 / 2)) 120 90 = Inr (''MEDIUM'', 1, None)
    \<and> receive_sensor_data sample_env not_loaded ''2026-11-02T09:30:00'' (JObj ?kvs) init_db =
     (Inr (JObj [(''status'', JStr ''ok''), (''risk_level'', JStr ''MEDIUM''),
                 (''risk_code'', JInt 1)], 200), one_reading)"
    using b p by (simp add: rp i)
  have three: "receive_sensor_data sample_env ?short ''2026-11-02T09:30:02'' (JObj ?kvs2) one_reading =
     (Inl ValueError, one_reading)"
    using d q2(1) mi2 p1 le oob by blast
  have four: "receive_sensor_data sample_env ?unscaled ''2026-11-02T09:30:02'' (JObj ?kvs2) one_reading =
     (Inl AttributeError, one_reading)"
    using u q2(2) fl us by blast
  show ?thesis
    using c q mi pf one p two c2 mi2 p1(1) oob three us(2,3) four by blast
qed


lemma order_by_length_exact:
  "0 \<le> limit \<Longrightarrow> length (order_by_id_desc_limit rs limit) = min (nat limit) (length rs)"
  by (simp add: order_by_id_desc_limit_def Let_def min_def)

lemma order_by_newest:
  assumes "distinct (map r_id rs)" "r \<in> set rs" "r \<notin> set (order_by_id_desc_limit rs limit)"
    "r' \<in> set (order_by_id_desc_limit rs limit)"
  shows "r_id r < r_id r'"
proof -
  let ?xs = "rev (sort_key r_id rs)"
  have neg: "\<not> limit < 0"
    using assms(2,3) by (auto simp add: order_by_id_desc_limit_def Let_def)
  then have eq: "order_by_id_desc_limit rs limit = take (nat limit) ?xs"
    by (simp add: order_by_id_desc_limit_def Let_def)
  have "sorted_wrt (>) (map r_id (order_by_id_desc_limit rs (- 1)))"
    by (rule order_by_sorted [OF assms(1)])
  then have "sorted_wrt (\<lambda>a b. r_id b < r_id a) ?xs"
    by (simp add: order_by_id_desc_limit_def Let_def sorted_wrt_map)
  then have "sorted_wrt (\<lambda>a b. r_id b < r_id a) (take (nat limit) ?xs @ drop (nat limit) ?xs)"
    by simp
  then have *: "\<forall>a \<in> set (take (nat limit) ?xs). \<forall>b \<in> set (drop (nat limit) ?xs). r_id b < r_id a"
    unfolding sorted_wrt_append by blast
  have "r \<in> set (take (nat limit) ?xs @ drop (nat limit) ?xs)"
    using assms(2) by simp
  then have "r \<in> set (drop (nat limit) ?xs)"
    using assms(3) unfolding eq set_append by blast
  then show ?thesis
    using * assms(4) unfolding eq by blast
qed

lemma latest_rows_empty_device:
  "latest_rows env (Some []) limit_arg st = latest_rows env None limit_arg st"
  by (simp add: latest_rows_def)

text \<open>
  C6 (as amended): on every table the server can reach, a successful query for the
  latest readings returns selected rows of the table in strictly descending order of
  id, and every selected row it leaves out is older (has a smaller id) than every row it
  returns. It returns \<open>limit\<close> rows, or all selected rows if they are fewer, when the
  limit is not negative, and all selected rows when the limit is negative. When a
  non-empty device id is given, the selected rows are those of that device; an empty
  device id is answered as an absent one, which selects every row.
\<close>

theorem latest_rows_ordered_limited:
  "reachable st \<Longrightarrow> latest_rows env device limit_arg st = Inr rs \<Longrightarrow>
   py_int env (case limit_arg of None \<Rightarrow> JInt 50 | Some s \<Rightarrow> JStr s) = Inr limit \<Longrightarrow>
   (0 \<le> limit \<longrightarrow> int (length rs) \<le> limit)
   \<and> (limit < 0 \<longrightarrow> length rs = length (filter (selected device) (rows st)))
   \<and> sorted_wrt (>) (map r_id rs)
   \<and> set rs \<subseteq> set (rows st)
   \<and> (device = Some d \<and> d \<noteq> [] \<longrightarrow> (\<forall>r \<in> set rs. r_device_id r = d))
   \<and> (\<forall>r \<in> set rs. selected device r)
   \<and> (0 \<le> limit \<longrightarrow>
        length rs = min (nat limit) (length (filter (selected device) (rows st))))
   \<and> (\<forall>r \<in> set (rows st). selected device r \<and> r \<notin> set rs \<longrightarrow>
        (\<forall>r' \<in> set rs. r_id r < r_id r'))
   \<and> latest_rows env (Some []) limit_arg st = latest_rows env None limit_arg st"
proof -
  assume r: "reachable st" and l: "latest_rows env device limit_arg st = Inr rs"
    and i: "py_int env (case limit_arg of None \<Rightarrow> JInt 50 | Some s \<Rightarrow> JStr s) = Inr limit"
  let ?sel = "filter (selected device) (rows st)"
  have eq: "rs = order_by_id_desc_limit ?sel limit"
    by (rule latest_rows_eq [OF l i])
  have "distinct (map r_id (rows st))"
    using reachable_inv [OF r] by (simp add: store_inv_def)
  then have dist: "distinct (map r_id ?sel)"
    by (rule distinct_map_filter)
  then have sorted: "sorted_wrt (>) (map r_id rs)"
    unfolding eq by (rule order_by_sorted)
  have sub: "set rs \<subseteq> set ?sel"
    unfolding eq by (rule order_by_set)
  have dev: "\<forall>r \<in> set rs. r_device_id r = d" if "device = Some d" "d \<noteq> []"
    using sub that by (auto simp add: selected_def)
  have new: "\<forall>r \<in> set (rows st). selected device r \<and> r \<notin> set rs \<longrightarrow>
        (\<forall>r' \<in> set rs. r_id r < r_id r')"
    unfolding eq using order_by_newest [OF dist, of _ limit] by auto
  have len: "0 \<le> limit \<longrightarrow> length rs = min (nat limit) (length ?sel)"
    unfolding eq using order_by_length_exact [of limit ?sel] by blast
  have old: "(0 \<le> limit \<longrightarrow> int (length rs) \<le> limit)
      \<and> (limit < 0 \<longrightarrow> length rs = length ?sel)"
    unfolding eq using order_by_length [of limit ?sel] order_by_unbounded [of limit ?sel]
    by blast
  have sel: "\<forall>r \<in> set rs. selected device r"
    using sub by auto
  have sub': "set rs \<subseteq> set (rows st)"
    using sub by auto
  have dev': "device = Some d \<and> d \<noteq> [] \<longrightarrow> (\<forall>r \<in> set rs. r_device_id r = d)"
    using dev by blast
  show ?thesis
    by (intro conjI) (rule old [THEN conjunct1], rule old [THEN conjunct2], rule sorted,
      rule sub', rule dev', rule sel, rule len, rule new, rule latest_rows_empty_device)
qed


lemma latest_two_newest:
  "latest_rows sample_env None (Some ''1'') two_readings =
     Inr [\<lparr>r_id = 2, r_device_id = ''esp32-2'', r_timestamp = ''2026-11-02T09:30:02'',
           r_temperature = Finite 31, r_smoke = 520, r_gas = 710,
           r_risk_level = ''HIGH'', r_risk_code = 2\<rparr>]"
  by (simp add: latest_rows_def two_readings_eq sample_env_def int64_def
      order_by_id_desc_limit_def)

lemma latest_two_default:
  "latest_rows sample_env None None two_readings =
     Inr [\<lparr>r_id = 2, r_device_id = ''esp32-2'', r_timestamp = ''2026-11-02T09:30:02'',
           r_temperature = Finite 31, r_smoke = 520, r_gas = 710,
           r_risk_level = ''HIGH'', r_risk_code = 2\<rparr>,
          \<lparr>r_id = 1, r_device_id = ''esp32-1'', r_timestamp = ''2026-11-02T09:30:00'',
           r_temperature = Finite (129 / 2), r_smoke = 120, r_gas = 90,
           r_risk_level = ''MEDIUM'', r_risk_code = 1\<rparr>]"
  by (simp add: latest_rows_def two_readings_eq int64_def order_by_id_desc_limit_def)

theorem latest_rows_ordered_limited_witness:
  "reachable two_readings
   \<and> py_int sample_env (JStr ''2'') = Inr 2
   \<and> latest_rows sample_env (Some ''esp32-1'') (Some ''2'') two_readings =
       Inr [\<lparr>r_id = 1, r_device_id = ''esp32-1'', r_timestamp = ''2026-11-02T09:30:00'',
           r_temperature = Finite (129 / 2), r_smoke = 120, r_gas = 90,
           r_risk_level = ''MEDIUM'', r_risk_code = 1\<rparr>]
   \<and> int (length [\<lparr>r_id = 1, r_device_id = ''esp32-1'', r_timestamp = ''2026-11-02T09:30:00'',
           r_temperature = Finite (129 / 2), r_smoke = 120, r_gas = 90,
           r_risk_level = ''MEDIUM'', r_risk_code = 1\<rparr>]) \<le> 2
   \<and> r_device_id \<lparr>r_id = 1, r_device_id = ''esp32-1'', r_timestamp = ''2026-11-02T09:30:00'',
           r_temperature = Finite (129 / 2), r_smoke = 120, r_gas = 90,
           r_risk_level = ''MEDIUM'', r_risk_code = 1\<rparr> = ''esp32-1''
   \<and> length [\<lparr>r_id = 1, r_device_id = ''esp32-1'', r_timestamp = ''2026-11-02T09:30:00'',
           r_temperature = Finite (129 / 2), r_smoke = 120, r_gas = 90,
           r_risk_level = ''MEDIUM'', r_risk_code = 1\<rparr>] =
       min (nat 2) (length (filter (selected (Some ''esp32-1'')) (rows two_readings)))
   \<and> py_int sample_env (JStr ''-1'') = Inr (- 1)
   \<and> latest_rows sample_env None (Some ''-1'') two_readings =
       Inr [\<lparr>r_id = 2, r_device_id = ''esp32-2'', r_timestamp = ''2026-11-02T09:30:02'',
           r_temperature = Finite 31, r_smoke = 520, r_gas = 710,
           r_risk_level = ''HIGH'', r_risk_code = 2\<rparr>,
          \<lparr>r_id = 1, r_device_id = ''esp32-1'', r_timestamp = ''2026-11-02T09:30:00'',
           r_temperature = Finite (129 / 2), r_smoke = 120, r_gas = 90,
           r_risk_level = ''MEDIUM'', r_risk_code = 1\<rparr>]
   \<and> length [\<lparr>r_id = 2, r_device_id = ''esp32-2'', r_timestamp = ''2026-11-02T09:30:02'',
           r_temperature = Finite 31, r_smoke = 520, r_gas = 710,
           r_risk_level = ''HIGH'', r_risk_code = 2\<rparr>,
          \<lparr>r_id = 1, r_device_id = ''esp32-1'', r_timestamp = ''2026-11-02T09:30:00'',
           r_temperature = Finite (129 / 2), r_smoke = 120, r_gas = 90,
           r_risk_level = ''MEDIUM'', r_risk_code = 1\<rparr>] = length (filter (selected None) (rows two_readings))
   \<and> sorted_wrt (>) (map r_id
         [\<lparr>r_id = 2, r_device_id = ''esp32-2'', r_timestamp = ''2026-11-02T09:30:02'',
           r_temperature = Finite 31, r_smoke = 520, r_gas = 710,
           r_risk_level = ''HIGH'', r_risk_code = 2\<rparr>,
          \<lparr>r_id = 1, r_device_id = ''esp32-1'', r_timestamp = ''2026-11-02T09:30:00'',
           r_temperature = Finite (129 / 2), r_smoke = 120, r_gas = 90,
           r_risk_level = ''MEDIUM'', r_risk_code = 1\<rparr>])
   \<and> py_int sample_env (JStr ''1'') = Inr 1
   \<and> latest_rows sample_env None (Some ''1'') two_readings =
       Inr [\<lparr>r_id = 2, r_device_id = ''esp32-2'', r_timestamp = ''2026-11-02T09:30:02'',
           r_temperature = Finite 31, r_smoke = 520, r_gas = 710,
           r_risk_level = ''HIGH'', r_risk_code = 2\<rparr>]
   \<and> length [\<lparr>r_id = 2, r_device_id = ''esp32-2'', r_timestamp = ''2026-11-02T09:30:02'',
           r_temperature = Finite 31, r_smoke = 520, r_gas = 710,
           r_risk_level = ''HIGH'', r_risk_code = 2\<rparr>] = min (nat 1) (length (filter (selected None) (rows two_readings)))
   \<and> r_id \<lparr>r_id = 1, r_device_id = ''esp32-1'', r_timestamp = ''2026-11-02T09:30:00'',
           r_temperature = Finite (129 / 2), r_smoke = 120, r_gas = 90,
           r_risk_level = ''MEDIUM'', r_risk_code = 1\<rparr> < r_id \<lparr>r_id = 2, r_device_id = ''esp32-2'', r_timestamp = ''2026-11-02T09:30:02'',
           r_temperature = Finite 31, r_smoke = 520, r_gas = 710,
           r_risk_level = ''HIGH'', r_risk_code = 2\<rparr>
   \<and> latest_rows sample_env (Some []) None two_readings =
       Inr [\<lparr>r_id = 2, r_device_id = ''esp32-2'', r_timestamp = ''2026-11-02T09:30:02'',
           r_temperature = Finite 31, r_smoke = 520, r_gas = 710,
           r_risk_level = ''HIGH'', r_risk_code = 2\<rparr>,
          \<lparr>r_id = 1, r_device_id = ''esp32-1'', r_timestamp = ''2026-11-02T09:30:00'',
           r_temperature = Finite (129 / 2), r_smoke = 120, r_gas = 90,
           r_risk_level = ''MEDIUM'', r_risk_code = 1\<rparr>]"
proof -
  have i2: "py_int sample_env (case Some ''2'' of None \<Rightarrow> JInt 50 | Some s \<Rightarrow> JStr s) = Inr 2"
    by (simp add: sample_env_def)
  have i1: "py_int sample_env (case Some ''-1'' of None \<Rightarrow> JInt 50 | Some s \<Rightarrow> JStr s) = Inr (- 1)"
    by (simp add: sample_env_def)
  have i3: "py_int sample_env (case Some ''1'' of None \<Rightarrow> JInt 50 | Some s \<Rightarrow> JStr s) = Inr 1"
    by (simp add: sample_env_def)
  have i4: "py_int sample_env (case None of None \<Rightarrow> JInt 50 | Some s \<Rightarrow> JStr s) = Inr 50"
    by simp
  have in1: "\<lparr>r_id = 1, r_device_id = ''esp32-1'', r_timestamp = ''2026-11-02T09:30:00'',
           r_temperature = Finite (129 / 2), r_smoke = 120, r_gas = 90,
           r_risk_level = ''MEDIUM'', r_risk_code = 1\<rparr> \<in> set (rows two_readings)"
    by (simp add: two_readings_eq)
  have out1: "selected None \<lparr>r_id = 1, r_device_id = ''esp32-1'', r_timestamp = ''2026-11-02T09:30:00'',
           r_temperature = Finite (129 / 2), r_smoke = 120, r_gas = 90,
           r_risk_level = ''MEDIUM'', r_risk_code = 1\<rparr> \<and> \<lparr>r_id = 1, r_device_id = ''esp32-1'', r_timestamp = ''2026-11-02T09:30:00'',
           r_temperature = Finite (129 / 2), r_smoke = 120, r_gas = 90,
           r_risk_level = ''MEDIUM'', r_risk_code = 1\<rparr> \<notin> set [\<lparr>r_id = 2, r_device_id = ''esp32-2'', r_timestamp = ''2026-11-02T09:30:02'',
           r_temperature = Finite 31, r_smoke = 520, r_gas = 710,
           r_risk_level = ''HIGH'', r_risk_code = 2\<rparr>]"
    by (simp add: selected_def)
  note a = latest_rows_ordered_limited
    [OF reachable_two_readings latest_two_device i2, of "''esp32-1''"]
  note b = latest_rows_ordered_limited
    [OF reachable_two_readings latest_two_unbounded i1, of "''esp32-1''"]
  note c = latest_rows_ordered_limited
    [OF reachable_two_readings latest_two_newest i3, of "''esp32-1''"]
  note d = latest_rows_ordered_limited
    [OF reachable_two_readings latest_two_default i4, of "''esp32-1''"]
  from a have a': "int (length [\<lparr>r_id = 1, r_device_id = ''esp32-1'', r_timestamp = ''2026-11-02T09:30:00'',
           r_temperature = Finite (129 / 2), r_smoke = 120, r_gas = 90,
           r_risk_level = ''MEDIUM'', r_risk_code = 1\<rparr>]) \<le> 2
      \<and> r_device_id \<lparr>r_id = 1, r_device_id = ''esp32-1'', r_timestamp = ''2026-11-02T09:30:00'',
           r_temperature = Finite (129 / 2), r_smoke = 120, r_gas = 90,
           r_risk_level = ''MEDIUM'', r_risk_code = 1\<rparr> = ''esp32-1''
      \<and> length [\<lparr>r_id = 1, r_device_id = ''esp32-1'', r_timestamp = ''2026-11-02T09:30:00'',
           r_temperature = Finite (129 / 2), r_smoke = 120, r_gas = 90,
           r_risk_level = ''MEDIUM'', r_risk_code = 1\<rparr>] =
          min (nat 2) (length (filter (selected (Some ''esp32-1'')) (rows two_readings)))"
    by simp
  from b have b': "length [\<lparr>r_id = 2, r_device_id = ''esp32-2'', r_timestamp = ''2026-11-02T09:30:02'',
           r_temperature = Finite 31, r_smoke = 520, r_gas = 710,
           r_risk_level = ''HIGH'', r_risk_code = 2\<rparr>,
          \<lparr>r_id = 1, r_device_id = ''esp32-1'', r_timestamp = ''2026-11-02T09:30:00'',
           r_temperature = Finite (129 / 2), r_smoke = 120, r_gas = 90,
           r_risk_level = ''MEDIUM'', r_risk_code = 1\<rparr>] = length (filter (selected None) (rows two_readings))
      \<and> sorted_wrt (>) (map r_id
         [\<lparr>r_id = 2, r_device_id = ''esp32-2'', r_timestamp = ''2026-11-02T09:30:02'',
           r_temperature = Finite 31, r_smoke = 520, r_gas = 710,
           r_risk_level = ''HIGH'', r_risk_code = 2\<rparr>,
          \<lparr>r_id = 1, r_device_id = ''esp32-1'', r_timestamp = ''2026-11-02T09:30:00'',
           r_temperature = Finite (129 / 2), r_smoke = 120, r_gas = 90,
           r_risk_level = ''MEDIUM'', r_risk_code = 1\<rparr>])"
    by simp
  from c have c1: "length [\<lparr>r_id = 2, r_device_id = ''esp32-2'', r_timestamp = ''2026-11-02T09:30:02'',
           r_temperature = Finite 31, r_smoke = 520, r_gas = 710,
           r_risk_level = ''HIGH'', r_risk_code = 2\<rparr>] = min (nat 1) (length (filter (selected None) (rows two_readings)))"
    by simp
  from c have "\<forall>r \<in> set (rows two_readings). selected None r \<and> r \<notin> set [\<lparr>r_id = 2, r_device_id = ''esp32-2'', r_timestamp = ''2026-11-02T09:30:02'',
           r_temperature = Finite 31, r_smoke = 520, r_gas = 710,
           r_risk_level = ''HIGH'', r_risk_code = 2\<rparr>] \<longrightarrow>
        (\<forall>r' \<in> set [\<lparr>r_id = 2, r_device_id = ''esp32-2'', r_timestamp = ''2026-11-02T09:30:02'',
           r_temperature = Finite 31, r_smoke = 520, r_gas = 710,
           r_risk_level = ''HIGH'', r_risk_code = 2\<rparr>]. r_id r < r_id r')"
    by blast
  then have c2: "r_id \<lparr>r_id = 1, r_device_id = ''esp32-1'', r_timestamp = ''2026-11-02T09:30:00'',
           r_temperature = Finite (129 / 2), r_smoke = 120, r_gas = 90,
           r_risk_level = ''MEDIUM'', r_risk_code = 1\<rparr> < r_id \<lparr>r_id = 2, r_device_id = ''esp32-2'', r_timestamp = ''2026-11-02T09:30:02'',
           r_temperature = Finite 31, r_smoke = 520, r_gas = 710,
           r_risk_level = ''HIGH'', r_risk_code = 2\<rparr>"
    using in1 out1 by simp
  from d have "latest_rows sample_env (Some []) None two_readings =
      latest_rows sample_env None None two_readings"
    by blast
  then have d': "latest_rows sample_env (Some []) None two_readings =
       Inr [\<lparr>r_id = 2, r_device_id = ''esp32-2'', r_timestamp = ''2026-11-02T09:30:02'',
           r_temperature = Finite 31, r_smoke = 520, r_gas = 710,
           r_risk_level = ''HIGH'', r_risk_code = 2\<rparr>,
          \<lparr>r_id = 1, r_device_id = ''esp32-1'', r_timestamp = ''2026-11-02T09:30:00'',
           r_temperature = Finite (129 / 2), r_smoke = 120, r_gas = 90,
           r_risk_level = ''MEDIUM'', r_risk_code = 1\<rparr>]"
    by (simp add: latest_two_default)
  show ?thesis
    using reachable_two_readings latest_two_device latest_two_unbounded latest_two_newest
      a' b' c1 c2 d' i1 i2 i3
    by simp
qed


lemma manual_predict_obj:
  "manual_predict env cls (JObj kvs) st =
     (case
        ebind (coerce_features env (field_or kvs ''temperature'' (JInt 30))
                 (field_or kvs ''smoke'' (JInt 100)) (field_or kvs ''gas'' (JInt 150))) (\<lambda>(t, s, g).
        ebind (ml_predict env cls t s g) (\<lambda>(label, code, proba).
        Inr (JObj (add_probabilities env cls proba
                     [(''risk_level'', JStr label), (''risk_code'', JInt code)]))))
      of
        Inl e \<Rightarrow> (Inl e, st)
      | Inr body \<Rightarrow> (Inr (body, 200), st))"
  by (simp add: manual_predict_def coerce_features_def field_or_def ebind_def
      split: sum.splits prod.splits)

lemma manual_predict_not_obj:
  "(\<forall>kvs. data \<noteq> JObj kvs) \<Longrightarrow> manual_predict env cls data st = (Inl AttributeError, st)"
  by (cases data) (simp_all add: manual_predict_def)

lemma coerce_features_Inr:
  "coerce_features env tv sv gv = Inr (t, s, g) \<Longrightarrow>
   py_float env tv = Inr t \<and> py_int env sv = Inr s \<and> py_int env gv = Inr g"
  by (auto simp add: coerce_features_def ebind_Inr_iff)

text \<open>
  C10 (as amended): in a manual prediction whose body is a JSON object, an absent
  \<open>temperature\<close>, \<open>smoke\<close> or \<open>gas\<close> key is no error. The handler converts the value of
  each key that is present and takes 30.0, 100 and 150 for the keys that are absent, and
  answers with the classification of these three values (or with the exception of a
  conversion or of the classifier); this is its answer for the same object with the
  defaults written in, and with all three keys absent and no model loaded it is LOW. A
  body that is not an object raises AttributeError.
\<close>

theorem manual_predict_defaults:
  "manual_predict env cls (JObj kvs) st = manual_predict env cls (JObj (fill_defaults kvs)) st
   \<and> (map_of kvs ''temperature'' = None \<and> map_of kvs ''smoke'' = None
        \<and> map_of kvs ''gas'' = None \<longrightarrow>
      manual_predict env cls (JObj kvs) st =
        (case ml_predict env cls (Finite 30) 100 150 of
           Inl e \<Rightarrow> (Inl e, st)
         | Inr (label, code, proba) \<Rightarrow>
             (Inr (JObj (add_probabilities env cls proba
                     [(''risk_level'', JStr label), (''risk_code'', JInt code)]), 200), st))
      \<and> (predictor cls = None \<longrightarrow>
           manual_predict env cls (JObj kvs) st =
             (Inr (JObj [(''risk_level'', JStr ''LOW''), (''risk_code'', JInt 0)], 200), st)))
   \<and> (coerce_features env (field_or kvs ''temperature'' (JInt 30))
          (field_or kvs ''smoke'' (JInt 100)) (field_or kvs ''gas'' (JInt 150)) = Inr (t, s, g)
        \<longrightarrow>
      manual_predict env cls (JObj kvs) st =
        (case ml_predict env cls t s g of
           Inl e \<Rightarrow> (Inl e, st)
         | Inr (label, code, proba) \<Rightarrow>
             (Inr (JObj (add_probabilities env cls proba
                     [(''risk_level'', JStr label), (''risk_code'', JInt code)]), 200), st))
      \<and> (map_of kvs ''temperature'' = None \<longrightarrow> t = Finite 30)
      \<and> (map_of kvs ''smoke'' = None \<longrightarrow> s = 100)
      \<and> (map_of kvs ''gas'' = None \<longrightarrow> g = 150)
      \<and> (map_of kvs ''temperature'' = Some tv \<longrightarrow> py_float env tv = Inr t)
      \<and> (map_of kvs ''smoke'' = Some sv \<longrightarrow> py_int env sv = Inr s)
      \<and> (map_of kvs ''gas'' = Some gv \<longrightarrow> py_int env gv = Inr g))
   \<and> (coerce_features env (field_or kvs ''temperature'' (JInt 30))
          (field_or kvs ''smoke'' (JInt 100)) (field_or kvs ''gas'' (JInt 150)) = Inl e'
        \<longrightarrow> manual_predict env cls (JObj kvs) st = (Inl e', st))
   \<and> ((\<forall>kvs'. data \<noteq> JObj kvs') \<longrightarrow>
        manual_predict env cls data st = (Inl AttributeError, st))"
proof -
  have a: "manual_predict env cls (JObj kvs) st = manual_predict env cls (JObj (fill_defaults kvs)) st"
    by (simp add: manual_predict_def map_of_fill_defaults split: option.splits)
  have b: "manual_predict env cls (JObj kvs) st =
        (case ml_predict env cls (Finite 30) 100 150 of
           Inl e \<Rightarrow> (Inl e, st)
         | Inr (label, code, proba) \<Rightarrow>
             (Inr (JObj (add_probabilities env cls proba
                     [(''risk_level'', JStr label), (''risk_code'', JInt code)]), 200), st))"
    if "map_of kvs ''temperature'' = None" "map_of kvs ''smoke'' = None" "map_of kvs ''gas'' = None"
    using that
    by (simp add: manual_predict_def float_of_int_30 split: sum.splits prod.splits)
  have c: "ml_predict env cls (Finite 30) 100 150 = Inr (''LOW'', 0, None)" if "predictor cls = None"
    using that by (simp add: ml_predict_def rule_predict_def rule_score_def)
  have two: "map_of kvs ''temperature'' = None \<and> map_of kvs ''smoke'' = None
        \<and> map_of kvs ''gas'' = None \<longrightarrow>
      manual_predict env cls (JObj kvs) st =
        (case ml_predict env cls (Finite 30) 100 150 of
           Inl e \<Rightarrow> (Inl e, st)
         | Inr (label, code, proba) \<Rightarrow>
             (Inr (JObj (add_probabilities env cls proba
                     [(''risk_level'', JStr label), (''risk_code'', JInt code)]), 200), st))
      \<and> (predictor cls = None \<longrightarrow>
           manual_predict env cls (JObj kvs) st =
             (Inr (JObj [(''risk_level'', JStr ''LOW''), (''risk_code'', JInt 0)], 200), st))"
    using b c by (simp add: add_probabilities_def)
  have three: "manual_predict env cls (JObj kvs) st =
        (case ml_predict env cls t s g of
           Inl e \<Rightarrow> (Inl e, st)
         | Inr (label, code, proba) \<Rightarrow>
             (Inr (JObj (add_probabilities env cls proba
                     [(''risk_level'', JStr label), (''risk_code'', JInt code)]), 200), st))
      \<and> (map_of kvs ''temperature'' = None \<longrightarrow> t = Finite 30)
      \<and> (map_of kvs ''smoke'' = None \<longrightarrow> s = 100)
      \<and> (map_of kvs ''gas'' = None \<longrightarrow> g = 150)
      \<and> (map_of kvs ''temperature'' = Some tv \<longrightarrow> py_float env tv = Inr t)
      \<and> (map_of kvs ''smoke'' = Some sv \<longrightarrow> py_int env sv = Inr s)
      \<and> (map_of kvs ''gas'' = Some gv \<longrightarrow> py_int env gv = Inr g)"
    if h: "coerce_features env (field_or kvs ''temperature'' (JInt 30))
          (field_or kvs ''smoke'' (JInt 100)) (field_or kvs ''gas'' (JInt 150)) = Inr (t, s, g)"
  proof -
    have m: "manual_predict env cls (JObj kvs) st =
        (case ml_predict env cls t s g of
           Inl e \<Rightarrow> (Inl e, st)
         | Inr (label, code, proba) \<Rightarrow>
             (Inr (JObj (add_probabilities env cls proba
                     [(''risk_level'', JStr label), (''risk_code'', JInt code)]), 200), st))"
      by (simp add: manual_predict_obj h split: sum.splits)
    note v = coerce_features_Inr [OF h]
    have "map_of kvs ''temperature'' = None \<longrightarrow> t = Finite 30"
      using v by (auto simp add: field_or_def float_of_int_30)
    moreover have "map_of kvs ''smoke'' = None \<longrightarrow> s = 100"
      using v by (auto simp add: field_or_def)
    moreover have "map_of kvs ''gas'' = None \<longrightarrow> g = 150"
      using v by (auto simp add: field_or_def)
    moreover have "map_of kvs ''temperature'' = Some tv \<longrightarrow> py_float env tv = Inr t"
      using v by (auto simp add: field_or_def)
    moreover have "map_of kvs ''smoke'' = Some sv \<longrightarrow> py_int env sv = Inr s"
      using v by (auto simp add: field_or_def)
    moreover have "map_of kvs ''gas'' = Some gv \<longrightarrow> py_int env gv = Inr g"
      using v by (auto simp add: field_or_def)
    ultimately show ?thesis using m by blast
  qed
  have four: "manual_predict env cls (JObj kvs) st = (Inl e', st)"
    if "coerce_features env (field_or kvs ''temperature'' (JInt 30))
          (field_or kvs ''smoke'' (JInt 100)) (field_or kvs ''gas'' (JInt 150)) = Inl e'"
    by (simp add: manual_predict_obj that)
  have five: "(\<forall>kvs'. data \<noteq> JObj kvs') \<longrightarrow>
        manual_predict env cls data st = (Inl AttributeError, st)"
    by (rule impI) (erule manual_predict_not_obj)
  show ?thesis
    by (rule conjI [OF a conjI [OF two conjI [OF impI conjI [OF impI five]]]])
      (erule three, erule four)
qed

text \<open>
  C10 as stated fails for a body that is not an object: for the empty list and for
  \<open>null\<close>, where every field is absent, no default is substituted and nothing is
  classified; \<open>data.get\<close> raises AttributeError.
\<close>

theorem manual_predict_defaults_counterexample:
  "manual_predict sample_env not_loaded (JArr []) init_db = (Inl AttributeError, init_db)
   \<and> manual_predict sample_env not_loaded JNull init_db = (Inl AttributeError, init_db)"
  by (simp add: manual_predict_def)

text \<open>
  C8: a run of the rule-based classifier is a call of \<open>ml_predict\<close> while no predictor is
  loaded. Such a run never raises, and it returns what \<open>rule_predict\<close> computes from the
  three readings alone: two runs on the same readings return the same result whatever
  the other globals (scaler, label encoder, metadata) and the run-time environment of
  each run are. The result is one of the three fixed triples, whose third component, the
  probabilities, is \<open>None\<close>. Seen from the handler, a manual prediction of the same body
  gives the same answer on any table and under any such globals, and returns its table
  unchanged.
\<close>

theorem rule_predict_pure_total:
  "predictor cls = None \<Longrightarrow> predictor cls' = None \<Longrightarrow>
   ml_predict env cls t s g = Inr (rule_predict t s g)
   \<and> ml_predict env' cls' t s g = ml_predict env cls t s g
   \<and> (rule_predict t s g = (''LOW'', 0, None) \<or> rule_predict t s g = (''MEDIUM'', 1, None)
      \<or> rule_predict t s g = (''HIGH'', 2, None))
   \<and> snd (snd (rule_predict t s g)) = None
   \<and> fst (manual_predict env cls' data st') = fst (manual_predict env cls data st)
   \<and> snd (manual_predict env cls data st) = st"
proof -
  assume p: "predictor cls = None" and p': "predictor cls' = None"
  have m: "ml_predict e c t' s' g' = Inr (rule_predict t' s' g')" if "predictor c = None"
    for e c t' s' g'
    using that by (simp add: ml_predict_def)
  have n: "snd (snd (rule_predict t' s' g')) = None" for t' s' g'
    by (simp add: rule_predict_def Let_def)
  have r: "rule_predict t s g = (''LOW'', 0, None) \<or> rule_predict t s g = (''MEDIUM'', 1, None)
      \<or> rule_predict t s g = (''HIGH'', 2, None)"
    by (simp add: rule_predict_def Let_def)
  have a: "add_probabilities env c (snd (snd (rule_predict t' s' g'))) resp = resp"
    for c t' s' g' resp
    by (simp add: n add_probabilities_def)
  have b: "b = None" if "rule_predict t' s' g' = (l, c, b)" for t' s' g' l c b
    using n [of t' s' g'] that by simp
  have mp: "fst (manual_predict env cls' data st') = fst (manual_predict env cls data st)"
    by (auto simp add: manual_predict_def m [OF p] m [OF p'] ebind_def add_probabilities_def
        split: sum.splits prod.splits dest!: b)
  show ?thesis
    using m [OF p, of env t s g] m [OF p', of env' t s g] r n [of t s g] mp
      manual_predict_store [of env cls data st]
    by simp
qed


theorem manual_predict_defaults_witness:
  "manual_predict sample_env not_loaded (JObj [(''smoke'', JInt 600)]) init_db =
     manual_predict sample_env not_loaded
       (JObj [(''temperature'', JInt 30), (''gas'', JInt 150), (''smoke'', JInt 600)]) init_db
   \<and> coerce_features sample_env (field_or [(''smoke'', JInt 600)] ''temperature'' (JInt 30))
         (field_or [(''smoke'', JInt 600)] ''smoke'' (JInt 100))
         (field_or [(''smoke'', JInt 600)] ''gas'' (JInt 150)) = Inr (Finite 30, 600, 150)
   \<and> map_of [(''smoke'', JInt 600)] ''temperature'' = None
   \<and> map_of [(''smoke'', JInt 600)] ''smoke'' = Some (JInt 600)
   \<and> map_of [(''smoke'', JInt 600)] ''gas'' = None
   \<and> manual_predict sample_env not_loaded (JObj [(''smoke'', JInt 600)]) init_db =
       (Inr (JObj [(''risk_level'', JStr ''MEDIUM''), (''risk_code'', JInt 1)], 200), init_db)
   \<and> predictor not_loaded = None
   \<and> manual_predict sample_env not_loaded (JObj [(''device_id'', JStr ''esp32-1'')]) init_db =
       (Inr (JObj [(''risk_level'', JStr ''LOW''), (''risk_code'', JInt 0)], 200), init_db)
   \<and> coerce_features sample_env (field_or [(''gas'', JStr ''hot'')] ''temperature'' (JInt 30))
         (field_or [(''gas'', JStr ''hot'')] ''smoke'' (JInt 100))
         (field_or [(''gas'', JStr ''hot'')] ''gas'' (JInt 150)) = Inl ValueError
   \<and> manual_predict sample_env not_loaded (JObj [(''gas'', JStr ''hot'')]) init_db =
       (Inl ValueError, init_db)
   \<and> manual_predict sample_env not_loaded (JStr ''temperature'') init_db =
       (Inl AttributeError, init_db)"
proof -
  let ?k = "[(''smoke'', JInt 600)]"
  let ?d = "[(''device_id'', JStr ''esp32-1'')]"
  let ?h = "[(''gas'', JStr ''hot'')]"
  have f: "fill_defaults ?k =
      [(''temperature'', JInt 30), (''gas'', JInt 150), (''smoke'', JInt 600)]"
    by (simp add: fill_defaults_def)
  have p: "predictor not_loaded = None"
    by (simp add: not_loaded_def)
  have n: "map_of ?d ''temperature'' = None \<and> map_of ?d ''smoke'' = None
      \<and> map_of ?d ''gas'' = None"
    by simp
  have k: "map_of ?k ''temperature'' = None" "map_of ?k ''smoke'' = Some (JInt 600)"
    "map_of ?k ''gas'' = None"
    by simp_all
  have c: "coerce_features sample_env (field_or ?k ''temperature'' (JInt 30))
         (field_or ?k ''smoke'' (JInt 100)) (field_or ?k ''gas'' (JInt 150)) =
       Inr (Finite 30, 600, 150)"
    by (simp add: coerce_features_def field_or_def float_of_int_def)
  have ch: "coerce_features sample_env (field_or ?h ''temperature'' (JInt 30))
         (field_or ?h ''smoke'' (JInt 100)) (field_or ?h ''gas'' (JInt 150)) = Inl ValueError"
    by (simp add: coerce_features_def field_or_def float_of_int_def sample_env_def)
  have m: "ml_predict sample_env not_loaded (Finite 30) 600 150 = Inr (''MEDIUM'', 1, None)"
    by (simp add: ml_predict_def not_loaded_def rule_predict_def rule_score_def)
  have s: "\<forall>kvs'. JStr ''temperature'' \<noteq> JObj kvs'"
    by simp
  note a = manual_predict_defaults [of sample_env not_loaded ?k init_db "Finite 30" 600 150,
    where data = "JStr ''temperature''"]
  note b = manual_predict_defaults [of sample_env not_loaded ?d init_db]
  note h = manual_predict_defaults [of sample_env not_loaded ?h init_db, where e' = ValueError]
  have one: "manual_predict sample_env not_loaded (JObj ?k) init_db =
     manual_predict sample_env not_loaded
       (JObj [(''temperature'', JInt 30), (''gas'', JInt 150), (''smoke'', JInt 600)]) init_db"
    using a unfolding f by (rule conjunct1)
  have "manual_predict sample_env not_loaded (JObj ?k) init_db =
        (case ml_predict sample_env not_loaded (Finite 30) 600 150 of
           Inl e \<Rightarrow> (Inl e, init_db)
         | Inr (label, code, proba) \<Rightarrow>
             (Inr (JObj (add_probabilities sample_env not_loaded proba
                     [(''risk_level'', JStr label), (''risk_code'', JInt code)]), 200), init_db))"
    using a c by blast
  then have two: "manual_predict sample_env not_loaded (JObj ?k) init_db =
       (Inr (JObj [(''risk_level'', JStr ''MEDIUM''), (''risk_code'', JInt 1)], 200), init_db)"
    by (simp add: m add_probabilities_def)
  have three: "manual_predict sample_env not_loaded (JObj ?d) init_db =
       (Inr (JObj [(''risk_level'', JStr ''LOW''), (''risk_code'', JInt 0)], 200), init_db)"
    using b n p by blast
  have four: "manual_predict sample_env not_loaded (JObj ?h) init_db = (Inl ValueError, init_db)"
    using h ch by blast
  have five: "manual_predict sample_env not_loaded (JStr ''temperature'') init_db =
       (Inl AttributeError, init_db)"
    using a s by blast
  show ?thesis using one c k two p three ch four five by blast
qed

theorem rule_predict_pure_total_witness:
  "predictor not_loaded = None
   \<and> predictor (not_loaded\<lparr>label_enc := Some \<lparr>enc_classes = [''HIGH'', ''LOW'']\<rparr>,
           model_meta := JObj [(''use_scaled'', JBool True)]\<rparr>) = None
   \<and> ml_predict sample_env not_loaded NaN 600 700 = Inr (''HIGH'', 2, None)
   \<and> ml_predict (sample_env\<lparr>float_of_big := (\<lambda>n. Inr PosInf)\<rparr>)
        (not_loaded\<lparr>label_enc := Some \<lparr>enc_classes = [''HIGH'', ''LOW'']\<rparr>,
           model_meta := JObj [(''use_scaled'', JBool True)]\<rparr>) NaN 600 700 = Inr (''HIGH'', 2, None)
   \<and> snd (snd (rule_predict NaN 600 700)) = None
   \<and> manual_predict sample_env not_loaded (JObj [(''smoke'', JInt 600)]) init_db =
       (Inr (JObj [(''risk_level'', JStr ''MEDIUM''), (''risk_code'', JInt 1)], 200), init_db)
   \<and> fst (manual_predict sample_env
        (not_loaded\<lparr>label_enc := Some \<lparr>enc_classes = [''HIGH'', ''LOW'']\<rparr>,
           model_meta := JObj [(''use_scaled'', JBool True)]\<rparr>) (JObj [(''smoke'', JInt 600)]) two_readings) =
       Inr (JObj [(''risk_level'', JStr ''MEDIUM''), (''risk_code'', JInt 1)], 200)"
proof -
  let ?o = "(not_loaded\<lparr>label_enc := Some \<lparr>enc_classes = [''HIGH'', ''LOW'']\<rparr>,
           model_meta := JObj [(''use_scaled'', JBool True)]\<rparr>)"
  have p: "predictor not_loaded = None" "predictor ?o = None"
    by (simp_all add: not_loaded_def)
  have r: "rule_predict NaN 600 700 = (''HIGH'', 2, None)"
    by (simp add: rule_predict_def rule_score_def)
  have m: "ml_predict sample_env not_loaded (Finite 30) 600 150 = Inr (''MEDIUM'', 1, None)"
    by (simp add: ml_predict_def not_loaded_def rule_predict_def rule_score_def)
  have mp: "manual_predict sample_env not_loaded (JObj [(''smoke'', JInt 600)]) init_db =
       (Inr (JObj [(''risk_level'', JStr ''MEDIUM''), (''risk_code'', JInt 1)], 200), init_db)"
    by (simp add: manual_predict_def float_of_int_def m add_probabilities_def)
  note t = rule_predict_pure_total [OF p, where env = sample_env and t = NaN and s = 600
    and g = 700 and env' = "(sample_env\<lparr>float_of_big := (\<lambda>n. Inr PosInf)\<rparr>)"
    and data = "JObj [(''smoke'', JInt 600)]" and st = init_db and st' = two_readings]
  have a: "ml_predict sample_env not_loaded NaN 600 700 = Inr (''HIGH'', 2, None)"
    using t r by simp
  have b: "ml_predict (sample_env\<lparr>float_of_big := (\<lambda>n. Inr PosInf)\<rparr>) ?o NaN 600 700 = Inr (''HIGH'', 2, None)"
    using t a by simp
  have c: "snd (snd (rule_predict NaN 600 700)) = None"
    using t by blast
  have d: "fst (manual_predict sample_env ?o (JObj [(''smoke'', JInt 600)]) two_readings) =
       Inr (JObj [(''risk_level'', JStr ''MEDIUM''), (''risk_code'', JInt 1)], 200)"
    using t mp by simp
  show ?thesis using p a b c mp d by blast
qed

end
